theory Spec2Isabelle
  imports Main "HOL-Library.Word"
begin

unbundle bit_operations_syntax

section \<open>Machine types\<close>

type_synonym u16 = "16 word"
type_synonym u32 = "32 word"

section \<open>Ring buffer (platform/stm32f4/ringbuff.h)\<close>

text \<open>
  The header declares \<^verbatim>\<open>struct rbuff { unsigned char *data; volatile int top;
  volatile int bottom; int size; }\<close> and the prototypes of \<^verbatim>\<open>rbuff_new\<close>,
  \<^verbatim>\<open>rbuff_push\<close>, \<^verbatim>\<open>rbuff_pop\<close>, \<^verbatim>\<open>rbuff_is_empty\<close> and \<^verbatim>\<open>rbuff_is_full\<close>.
  The record keeps the fields of the struct (prefixed, since \<open>top\<close> and \<open>size\<close> are
  constants of HOL); the element type is a parameter, the header's buffer being the
  instance \<open>u8 rbuff\<close>. \<open>rb_top\<close> is the next write position and \<open>rb_bottom\<close> the next
  read position.
\<close>

record 'a rbuff =
  rb_data :: "'a list"
  rb_top :: nat
  rb_bottom :: nat
  rb_size :: nat

text \<open>
  Modelled from the spec: the bodies of \<^verbatim>\<open>rbuff_new\<close>, \<^verbatim>\<open>rbuff_is_empty\<close>,
  \<^verbatim>\<open>rbuff_is_full\<close>, \<^verbatim>\<open>rbuff_push\<close> and \<^verbatim>\<open>rbuff_pop\<close> (ringbuff.c) are missing; only
  their prototypes are in the header. The definitions follow the contract of the
  specification: empty iff head = tail, full iff (head + 1) mod N = tail, push answers
  false and does nothing when full, pop answers None when empty.
\<close>

definition rbuff_new :: "'a \<Rightarrow> nat \<Rightarrow> 'a rbuff" where
  "rbuff_new z n = \<lparr>rb_data = replicate n z, rb_top = 0, rb_bottom = 0, rb_size = n\<rparr>"


definition rbuff_is_full :: "'a rbuff \<Rightarrow> bool" where
  "rbuff_is_full p = ((rb_top p + 1) mod rb_size p = rb_bottom p)"

definition rbuff_push :: "'a rbuff \<Rightarrow> 'a \<Rightarrow> bool \<times> 'a rbuff" where
  "rbuff_push p c =
     (if rbuff_is_full p then (False, p)
      else (True, p\<lparr>rb_data := (rb_data p)[rb_top p := c],
                     rb_top := (rb_top p + 1) mod rb_size p\<rparr>))"




section \<open>ADC subsystem: data (platform.c, BUILD_ADC part)\<close>

text \<open>
  Constants of platform_conf.h, which is missing: the timer base clock \<^verbatim>\<open>HCLK\<close>
  (\<^verbatim>\<open>TIM_GET_BASE_CLK( id )\<close> is \<^verbatim>\<open>( HCLK )\<close>), whether \<^verbatim>\<open>BUF_ENABLE_ADC\<close> is
  defined, and the fixed capacity of a channel's ring buffer (section 3 of the
  specification). They are carried as parameters. \<^verbatim>\<open>NUM_ADC\<close> is the length of the pin
  tables \<^verbatim>\<open>adc_gpio_pins\<close> and \<^verbatim>\<open>adc_gpio_port\<close>.
\<close>

record platform_conf =
  HCLK :: u32
  BUF_ENABLE_ADC :: bool
  ADC_BUF_SIZE :: nat

definition NUM_ADC :: nat where
  "NUM_ADC = 16"

datatype FunctionalState = DISABLE | ENABLE

datatype platform_result = PLATFORM_ERR | PLATFORM_OK

datatype error = Division_By_Zero | Out_Of_Bounds

datatype GPIO_port = GPIOA | GPIOB | GPIOC

text \<open>\<^verbatim>\<open>GPIO_Pin_n\<close> is written \<open>n\<close>.\<close>

definition adc_gpio_pins :: "nat list" where
  "adc_gpio_pins = [0, 1, 2, 3, 4, 5, 6, 7, 0, 1, 0, 1, 2, 3, 4, 5]"

definition adc_gpio_port :: "GPIO_port list" where
  "adc_gpio_port = [GPIOA, GPIOA, GPIOA, GPIOA, GPIOA, GPIOA, GPIOA, GPIOA,
                    GPIOB, GPIOB, GPIOC, GPIOC, GPIOC, GPIOC, GPIOC, GPIOC]"

definition CR2_EXTEN_RESET :: u32 where
  "CR2_EXTEN_RESET = 0xCFFFFFFF"

text \<open>
  Values of the vendor header stm32f4xx_adc.h, which is missing: the trigger edge
  occupies the two bits that \<open>CR2_EXTEN_RESET\<close> clears.
\<close>

definition ADC_ExternalTrigConvEdge_None :: u32 where
  "ADC_ExternalTrigConvEdge_None = 0x00000000"

definition ADC_ExternalTrigConvEdge_Rising :: u32 where
  "ADC_ExternalTrigConvEdge_Rising = 0x10000000"

definition ADC_CR2_SWSTART :: u32 where
  "ADC_CR2_SWSTART = 0x40000000"

datatype ADC_ExternalTrigConv =
  ADC_ExternalTrigConv_T1_CC1 | ADC_ExternalTrigConv_T2_TRGO
| ADC_ExternalTrigConv_T3_TRGO | ADC_ExternalTrigConv_T4_CC4

definition adc_timer :: "ADC_ExternalTrigConv list" where
  "adc_timer = [ADC_ExternalTrigConv_T1_CC1, ADC_ExternalTrigConv_T2_TRGO,
                ADC_ExternalTrigConv_T3_TRGO, ADC_ExternalTrigConv_T4_CC4]"

text \<open>
  The init structures of the vendor library, with the fields platform.c assigns.
\<close>

record ADC_InitTypeDef =
  ADC_ScanConvMode :: FunctionalState
  ADC_ContinuousConvMode :: FunctionalState
  ADC_ExternalTrigConv :: ADC_ExternalTrigConv
  ADC_ExternalTrigConvEdge :: u32
  ADC_NbrOfConversion :: nat

datatype address = Address_0 | ADC1_DR_Address | Address_sample_buf

datatype DMA_DIR = DMA_DIR_PeripheralToMemory | DMA_DIR_MemoryToPeripheral

datatype DMA_Mode = DMA_Mode_Normal | DMA_Mode_Circular

record DMA_InitTypeDef =
  DMA_PeripheralBaseAddr :: address
  DMA_Memory0BaseAddr :: address
  DMA_DIR :: DMA_DIR
  DMA_BufferSize :: nat
  DMA_PeripheralInc :: FunctionalState
  DMA_MemoryInc :: FunctionalState
  DMA_Mode :: DMA_Mode

record NVIC_InitTypeDef =
  NVIC_IRQChannelCmd :: FunctionalState

datatype TIM_CounterMode = TIM_CounterMode_Up | TIM_CounterMode_Down

record TIM_TimeBaseInitTypeDef =
  TIM_Period :: u32
  TIM_Prescaler :: u16
  TIM_CounterMode :: TIM_CounterMode

text \<open>
  The channel state \<^verbatim>\<open>elua_adc_ch_state\<close> (elua_adc.h, missing). The fields are those
  platform.c reads and writes (\<^verbatim>\<open>op_pending\<close>, \<^verbatim>\<open>freerunning\<close>, \<^verbatim>\<open>smooth_ready\<close>,
  \<^verbatim>\<open>value_fresh\<close>, \<^verbatim>\<open>id\<close>, \<^verbatim>\<open>logsmoothlen\<close>, \<^verbatim>\<open>reqsamples\<close>, \<^verbatim>\<open>value_ptr\<close>) and those
  of the specification's ChannelState that the missing helpers work on
  (\<open>samples_delivered\<close>, the smoothing accumulator, the ring-buffer sink).
  \<^verbatim>\<open>value_ptr\<close> points into \<^verbatim>\<open>sample_buf\<close> and is kept as an index.
\<close>

record elua_adc_ch_state =
  op_pending :: bool
  freerunning :: bool
  smooth_ready :: bool
  value_fresh :: bool
  ch_id :: nat
  logsmoothlen :: nat
  smoothidx :: nat
  smoothsum :: u32
  reqsamples :: u32
  samples_delivered :: u32
  value_ptr :: nat
  sink :: "u16 rbuff"

text \<open>
  The device state \<^verbatim>\<open>elua_adc_dev_state\<close> (elua_adc.h, missing), with the fields
  platform.c uses. \<^verbatim>\<open>ch_state\<close> is the scan list: an array of pointers to channel
  states, a pointer being kept as the index of the channel in the channel table.
\<close>

record elua_adc_dev_state =
  ch_state :: "nat list"
  sample_buf :: "u16 list"
  clocked :: bool
  running :: bool
  ch_active :: u32
  seq_ctr :: nat
  seq_len :: nat
  timer_id :: nat
  seq_id :: nat

text \<open>
  The hardware platform.c drives. \<open>CR2\<close> is the control register that
  \<^verbatim>\<open>ADC_ExternalTrigConvCmd\<close> and \<^verbatim>\<open>ADC_SoftwareStartConvCmd\<close> of platform.c write; what
  the calls into the vendor library switch is kept as one named field per call.
\<close>

record ADC_TypeDef =
  CR2 :: u32
  adc_on :: bool
  adc_dma :: bool
  adc_dds :: bool
  adc_conf :: "ADC_InitTypeDef option"
  adc_sqr :: "(nat \<times> nat) list"

record DMA_Stream_TypeDef =
  dma_on :: bool
  dma_conf :: "DMA_InitTypeDef option"
  dma_it_tc :: bool
  dma_tcif :: bool

record TIM_TypeDef =
  tim_base :: "TIM_TimeBaseInitTypeDef option"
  tim_trgo_update :: bool

record hardware =
  ADCx :: "nat \<Rightarrow> ADC_TypeDef"
  DMA2_Stream0 :: DMA_Stream_TypeDef
  NVIC_DMA2_Stream0_IRQ :: bool
  TIMx :: "nat \<Rightarrow> TIM_TypeDef"
  gpio_analog :: "(GPIO_port \<times> nat) list"

text \<open>
  All of it: the configuration, the device state (\<^verbatim>\<open>adc_get_dev_state( 0 )\<close>), the
  channel table (\<^verbatim>\<open>adc_get_ch_state( id )\<close> is entry \<open>id\<close>), the three global init
  structures of platform.c and the hardware.
\<close>

record sys =
  conf :: platform_conf
  d :: elua_adc_dev_state
  ch :: "nat \<Rightarrow> elua_adc_ch_state"
  adc_init_struct :: ADC_InitTypeDef
  dma_init_struct :: DMA_InitTypeDef
  nvic_init_structure_adc :: NVIC_InitTypeDef
  hw :: hardware

definition on_hw :: "(hardware \<Rightarrow> hardware) \<Rightarrow> sys \<Rightarrow> sys" where
  "on_hw f s = s\<lparr>hw := f (hw s)\<rparr>"

definition on_adc :: "nat \<Rightarrow> (ADC_TypeDef \<Rightarrow> ADC_TypeDef) \<Rightarrow> hardware \<Rightarrow> hardware" where
  "on_adc n f h = h\<lparr>ADCx := (ADCx h)(n := f (ADCx h n))\<rparr>"

definition on_ch :: "nat \<Rightarrow> (elua_adc_ch_state \<Rightarrow> elua_adc_ch_state) \<Rightarrow> sys \<Rightarrow> sys" where
  "on_ch c f s = s\<lparr>ch := (ch s)(c := f (ch s c))\<rparr>"

definition on_d :: "(elua_adc_dev_state \<Rightarrow> elua_adc_dev_state) \<Rightarrow> sys \<Rightarrow> sys" where
  "on_d f s = s\<lparr>d := f (d s)\<rparr>"

section \<open>ADC subsystem: hardware access\<close>

text \<open>The two register functions defined in platform.c, and the macro built on them.\<close>

definition ADC_ExternalTrigConvCmd :: "nat \<Rightarrow> u32 \<Rightarrow> hardware \<Rightarrow> hardware" where
  "ADC_ExternalTrigConvCmd n edge =
     on_adc n (\<lambda>a. a\<lparr>CR2 := (CR2 a AND CR2_EXTEN_RESET) OR edge\<rparr>)"

definition ADC_SoftwareStartConvCmd :: "nat \<Rightarrow> FunctionalState \<Rightarrow> hardware \<Rightarrow> hardware" where
  "ADC_SoftwareStartConvCmd n NewState =
     on_adc n (\<lambda>a. if NewState \<noteq> DISABLE then a\<lparr>CR2 := CR2 a OR ADC_CR2_SWSTART\<rparr>
                     else a\<lparr>CR2 := CR2 a AND NOT ADC_CR2_SWSTART\<rparr>)"

definition ADC_TRIG_CFG :: "nat \<Rightarrow> FunctionalState \<Rightarrow> hardware \<Rightarrow> hardware" where
  "ADC_TRIG_CFG adn n =
     ADC_ExternalTrigConvCmd adn
       (if n = ENABLE then ADC_ExternalTrigConvEdge_Rising else ADC_ExternalTrigConvEdge_None)"

text \<open>
  Modelled from the spec: the vendor library (stm32f4xx_adc.c, stm32f4xx_dma.c,
  stm32f4xx_tim.c, stm32f4xx_gpio.c, misc.c) is missing. Each call platform.c makes
  into it is a definition of its own that records what the call is documented to
  do: a Cmd call switches its unit on or off, an Init call programs the unit with the
  given structure, a DeInit call returns the unit to its reset state (which, for the
  DMA stream, clears its pending flags), a Clear call clears the pending flag.
  \<^verbatim>\<open>ADC_Init\<close> applies the whole structure, its trigger edge included: this is how
  platform.c switches to the software trigger (the comments
  "Switch to Software-only Trigger" and "Apply config" of platform_adc_set_clock).
\<close>

definition ADC_reset :: ADC_TypeDef where
  "ADC_reset = \<lparr>CR2 = 0, adc_on = False, adc_dma = False, adc_dds = False,
                 adc_conf = None, adc_sqr = []\<rparr>"

definition ADC_DeInit :: "hardware \<Rightarrow> hardware" where
  "ADC_DeInit h = h\<lparr>ADCx := (\<lambda>n. ADC_reset)\<rparr>"

definition ADC_Cmd :: "nat \<Rightarrow> FunctionalState \<Rightarrow> hardware \<Rightarrow> hardware" where
  "ADC_Cmd n NewState = on_adc n (\<lambda>a. a\<lparr>adc_on := (NewState \<noteq> DISABLE)\<rparr>)"

definition ADC_DMACmd :: "nat \<Rightarrow> FunctionalState \<Rightarrow> hardware \<Rightarrow> hardware" where
  "ADC_DMACmd n NewState = on_adc n (\<lambda>a. a\<lparr>adc_dma := (NewState \<noteq> DISABLE)\<rparr>)"

definition ADC_DMARequestAfterLastTransferCmd ::
    "nat \<Rightarrow> FunctionalState \<Rightarrow> hardware \<Rightarrow> hardware" where
  "ADC_DMARequestAfterLastTransferCmd n NewState =
     on_adc n (\<lambda>a. a\<lparr>adc_dds := (NewState \<noteq> DISABLE)\<rparr>)"

definition ADC_RegularChannelConfig :: "nat \<Rightarrow> nat \<Rightarrow> nat \<Rightarrow> hardware \<Rightarrow> hardware" where
  "ADC_RegularChannelConfig n channel rank =
     on_adc n (\<lambda>a. a\<lparr>adc_sqr := adc_sqr a @ [(rank, channel)]\<rparr>)"

definition ADC_StructInit :: ADC_InitTypeDef where
  "ADC_StructInit = \<lparr>ADC_ScanConvMode = DISABLE, ADC_ContinuousConvMode = DISABLE,
     ADC_ExternalTrigConv = ADC_ExternalTrigConv_T1_CC1,
     ADC_ExternalTrigConvEdge = ADC_ExternalTrigConvEdge_None, ADC_NbrOfConversion = 1\<rparr>"

definition ADC_Init :: "nat \<Rightarrow> ADC_InitTypeDef \<Rightarrow> hardware \<Rightarrow> hardware" where
  "ADC_Init n st =
     on_adc n (\<lambda>a. a\<lparr>CR2 := (CR2 a AND CR2_EXTEN_RESET) OR ADC_ExternalTrigConvEdge st,
                      adc_conf := Some st\<rparr>)"

definition GPIO_Init_analog :: "GPIO_port \<Rightarrow> nat \<Rightarrow> hardware \<Rightarrow> hardware" where
  "GPIO_Init_analog port pin h = h\<lparr>gpio_analog := gpio_analog h @ [(port, pin)]\<rparr>"

definition on_dma :: "(DMA_Stream_TypeDef \<Rightarrow> DMA_Stream_TypeDef) \<Rightarrow> hardware \<Rightarrow> hardware" where
  "on_dma f h = h\<lparr>DMA2_Stream0 := f (DMA2_Stream0 h)\<rparr>"

definition DMA_Cmd :: "FunctionalState \<Rightarrow> hardware \<Rightarrow> hardware" where
  "DMA_Cmd NewState = on_dma (\<lambda>m. m\<lparr>dma_on := (NewState \<noteq> DISABLE)\<rparr>)"

definition DMA_DeInit :: "hardware \<Rightarrow> hardware" where
  "DMA_DeInit =
     on_dma (\<lambda>m. \<lparr>dma_on = False, dma_conf = None, dma_it_tc = False, dma_tcif = False\<rparr>)"

definition DMA_StructInit :: DMA_InitTypeDef where
  "DMA_StructInit = \<lparr>DMA_PeripheralBaseAddr = Address_0, DMA_Memory0BaseAddr = Address_0,
     DMA_DIR = DMA_DIR_PeripheralToMemory, DMA_BufferSize = 0, DMA_PeripheralInc = DISABLE,
     DMA_MemoryInc = DISABLE, DMA_Mode = DMA_Mode_Normal\<rparr>"

definition DMA_Init :: "DMA_InitTypeDef \<Rightarrow> hardware \<Rightarrow> hardware" where
  "DMA_Init st = on_dma (\<lambda>m. m\<lparr>dma_conf := Some st\<rparr>)"

definition DMA_ITConfig_TC :: "FunctionalState \<Rightarrow> hardware \<Rightarrow> hardware" where
  "DMA_ITConfig_TC NewState = on_dma (\<lambda>m. m\<lparr>dma_it_tc := (NewState \<noteq> DISABLE)\<rparr>)"

definition DMA_ClearITPendingBit :: "hardware \<Rightarrow> hardware" where
  "DMA_ClearITPendingBit = on_dma (\<lambda>m. m\<lparr>dma_tcif := False\<rparr>)"

definition DMA_ClearFlag :: "hardware \<Rightarrow> hardware" where
  "DMA_ClearFlag = on_dma (\<lambda>m. m\<lparr>dma_tcif := False\<rparr>)"

definition NVIC_Init :: "NVIC_InitTypeDef \<Rightarrow> hardware \<Rightarrow> hardware" where
  "NVIC_Init st h = h\<lparr>NVIC_DMA2_Stream0_IRQ := (NVIC_IRQChannelCmd st \<noteq> DISABLE)\<rparr>"

definition on_tim :: "nat \<Rightarrow> (TIM_TypeDef \<Rightarrow> TIM_TypeDef) \<Rightarrow> hardware \<Rightarrow> hardware" where
  "on_tim n f h = h\<lparr>TIMx := (TIMx h)(n := f (TIMx h n))\<rparr>"

definition TIM_TimeBaseInit :: "nat \<Rightarrow> TIM_TimeBaseInitTypeDef \<Rightarrow> hardware \<Rightarrow> hardware" where
  "TIM_TimeBaseInit n st = on_tim n (\<lambda>r. r\<lparr>tim_base := Some st\<rparr>)"

definition TIM_GetPrescaler :: "nat \<Rightarrow> hardware \<Rightarrow> u16" where
  "TIM_GetPrescaler n h =
     (case tim_base (TIMx h n) of None \<Rightarrow> 0 | Some st \<Rightarrow> TIM_Prescaler st)"

definition TIM_SelectOutputTrigger_Update :: "nat \<Rightarrow> hardware \<Rightarrow> hardware" where
  "TIM_SelectOutputTrigger_Update n = on_tim n (\<lambda>r. r\<lparr>tim_trgo_update := True\<rparr>)"

text \<open>Whether the converter reacts to the timer's trigger edge, and whether a
  software start has been issued: the two fields of \<open>CR2\<close> that platform.c writes.\<close>

definition trigger_enabled :: "nat \<Rightarrow> hardware \<Rightarrow> bool" where
  "trigger_enabled n h = (CR2 (ADCx h n) AND NOT CR2_EXTEN_RESET \<noteq> 0)"

definition software_started :: "nat \<Rightarrow> hardware \<Rightarrow> bool" where
  "software_started n h = (CR2 (ADCx h n) AND ADC_CR2_SWSTART \<noteq> 0)"

section \<open>ADC subsystem: the missing helpers of elua_adc\<close>

text \<open>
  The macros of elua_adc.h on the mask of active channels, bit \<open>c\<close> for channel \<open>c\<close>.
\<close>

definition CHANNEL_ACTIVE :: "nat \<Rightarrow> sys \<Rightarrow> bool" where
  "CHANNEL_ACTIVE c s = (ch_active (d s) AND push_bit c 1 \<noteq> 0)"

definition ACTIVATE_CHANNEL :: "nat \<Rightarrow> sys \<Rightarrow> sys" where
  "ACTIVATE_CHANNEL c = on_d (\<lambda>x. x\<lparr>ch_active := ch_active x OR push_bit c 1\<rparr>)"

definition INACTIVATE_CHANNEL :: "nat \<Rightarrow> sys \<Rightarrow> sys" where
  "INACTIVATE_CHANNEL c = on_d (\<lambda>x. x\<lparr>ch_active := ch_active x AND NOT (push_bit c 1)\<rparr>)"

text \<open>
  Modelled from the spec: \<^verbatim>\<open>adc_samples_available\<close> (elua_adc.c) is missing. The
  handler's line \<^verbatim>\<open>if ( adc_samples_available( s->id ) >= s->reqsamples && ...\<close> is
  what section 4.5 describes as "Increment samples_delivered; if samples_delivered >=
  requested_sample_count ...": the call counts the sample just delivered to the
  channel and answers the channel's count.
\<close>

definition adc_samples_available :: "nat \<Rightarrow> sys \<Rightarrow> u32 \<times> sys" where
  "adc_samples_available c s =
     (let n = samples_delivered (ch s c) + 1
      in (n, on_ch c (\<lambda>x. x\<lparr>samples_delivered := n\<rparr>) s))"

text \<open>
  Modelled from the spec: \<^verbatim>\<open>buf_write\<close> (buf.c) is missing. Section 4.5: "push the
  sample into its ring buffer"; the push is the ring buffer's, whose answer the
  handler does not look at.
\<close>

definition buf_write :: "nat \<Rightarrow> u16 \<Rightarrow> sys \<Rightarrow> sys" where
  "buf_write c v = on_ch c (\<lambda>x. x\<lparr>sink := snd (rbuff_push (sink x) v)\<rparr>)"

text \<open>
  Modelled from the spec: \<^verbatim>\<open>adc_smooth_data\<close> (elua_adc.c) is missing. Section 4.5:
  the raw sample is fed into an accumulator sized \<open>2 ^ smoothing_log_depth\<close>, and
  \<open>smoothing_ready\<close> is set once the accumulator has seen that many samples.
\<close>

definition adc_smooth_data :: "nat \<Rightarrow> sys \<Rightarrow> sys" where
  "adc_smooth_data c s =
     on_ch c (\<lambda>x. x\<lparr>smoothidx := smoothidx x + 1,
                     smoothsum := smoothsum x + ucast (sample_buf (d s) ! value_ptr x),
                     smooth_ready := (2 ^ logsmoothlen x \<le> smoothidx x + 1)\<rparr>) s"

text \<open>
  Modelled from the spec: \<^verbatim>\<open>adc_init_ch_state\<close> (elua_adc.c) is missing. Section 3:
  a channel is created at init in the inactive state, and its ring buffer is created
  at init with its fixed capacity; entry \<open>c\<close> of the channel table is the state of
  channel \<open>c\<close>.
\<close>

definition adc_init_ch_state :: "nat \<Rightarrow> sys \<Rightarrow> sys" where
  "adc_init_ch_state c s =
     INACTIVATE_CHANNEL c
       (on_ch c (\<lambda>x. \<lparr>op_pending = False, freerunning = False, smooth_ready = False,
                       value_fresh = False, ch_id = c, logsmoothlen = 0, smoothidx = 0,
                       smoothsum = 0, reqsamples = 0, samples_delivered = 0, value_ptr = 0,
                       sink = rbuff_new 0 (ADC_BUF_SIZE (conf s))\<rparr>) s)"

section \<open>ADC subsystem: platform_adc_stop and platform_adc_update_sequence\<close>

definition platform_adc_stop :: "nat \<Rightarrow> sys \<Rightarrow> sys" where
  "platform_adc_stop c s =
     (let s1 = on_ch c (\<lambda>x. x\<lparr>op_pending := False\<rparr>) s;
          s2 = INACTIVATE_CHANNEL c s1
      in if ch_active (d s2) = 0 then
           (let s3 = on_hw (ADC_TRIG_CFG (seq_id (d s2)) DISABLE) s2;
                s4 = s3\<lparr>nvic_init_structure_adc :=
                          (nvic_init_structure_adc s3)\<lparr>NVIC_IRQChannelCmd := DISABLE\<rparr>\<rparr>;
                s5 = on_hw (NVIC_Init (nvic_init_structure_adc s4)) s4
            in on_d (\<lambda>x. x\<lparr>running := False\<rparr>) s5)
         else s2)"

text \<open>The body of the while loop of \<^verbatim>\<open>platform_adc_update_sequence\<close>.\<close>

definition update_sequence_body :: "sys \<Rightarrow> sys" where
  "update_sequence_body s =
     (let c = ch_id (ch s (ch_state (d s) ! seq_ctr (d s)));
          s1 = on_hw (GPIO_Init_analog (adc_gpio_port ! c) (adc_gpio_pins ! c)) s;
          s2 = on_hw (ADC_RegularChannelConfig (seq_id (d s1)) c (seq_ctr (d s1) + 1)) s1
      in on_d (\<lambda>x. x\<lparr>seq_ctr := seq_ctr x + 1\<rparr>) s2)"

function update_sequence_loop :: "sys \<Rightarrow> sys" where
  "update_sequence_loop s =
     (if seq_ctr (d s) < seq_len (d s) then update_sequence_loop (update_sequence_body s)
      else s)"
  by pat_completeness auto

lemma update_sequence_body_d:
  "d (update_sequence_body s) = (d s)\<lparr>seq_ctr := seq_ctr (d s) + 1\<rparr>"
  by (simp add: update_sequence_body_def on_hw_def on_d_def Let_def)

termination update_sequence_loop
  by (relation "measure (\<lambda>s. seq_len (d s) - seq_ctr (d s))")
     (auto simp: update_sequence_body_d)

declare update_sequence_loop.simps [simp del]

text \<open>The pins and the scan positions the loop programs from position \<open>i\<close> on.\<close>

definition scan_pins :: "sys \<Rightarrow> nat \<Rightarrow> (GPIO_port \<times> nat) list" where
  "scan_pins s i =
     map (\<lambda>k. (adc_gpio_port ! ch_id (ch s (ch_state (d s) ! k)),
                adc_gpio_pins ! ch_id (ch s (ch_state (d s) ! k))))
       [i..<seq_len (d s)]"

definition scan_ranks :: "sys \<Rightarrow> nat \<Rightarrow> (nat \<times> nat) list" where
  "scan_ranks s i = map (\<lambda>k. (k + 1, ch_id (ch s (ch_state (d s) ! k)))) [i..<seq_len (d s)]"

text \<open>
  \<^verbatim>\<open>platform_adc_update_sequence\<close>, in the three parts its comments mark: the trigger
  and the converter are brought down, set up and brought up again; then the DMA
  stream; then the trigger is enabled again if the device is clocked and running.
\<close>

definition update_sequence_adc :: "sys \<Rightarrow> sys" where
  "update_sequence_adc s =
     (let s1 = on_hw (ADC_TRIG_CFG (seq_id (d s)) DISABLE) s;
          s2 = on_hw (ADC_DMACmd (seq_id (d s1)) DISABLE) s1;
          s3 = on_hw (ADC_Cmd (seq_id (d s2)) DISABLE) s2;
          s4 = on_hw ADC_DeInit s3;
          s5 = on_d (\<lambda>x. x\<lparr>seq_ctr := 0\<rparr>) s4;
          s6 = update_sequence_loop s5;
          s7 = on_d (\<lambda>x. x\<lparr>seq_ctr := 0\<rparr>) s6;
          s8 = s7\<lparr>adc_init_struct :=
                    (adc_init_struct s7)\<lparr>ADC_NbrOfConversion := seq_len (d s7)\<rparr>\<rparr>;
          s9 = on_hw (ADC_Init (seq_id (d s8)) (adc_init_struct s8)) s8
      in on_hw (ADC_Cmd (seq_id (d s9)) ENABLE) s9)"

definition update_sequence_dma :: "sys \<Rightarrow> sys" where
  "update_sequence_dma s =
     (let s11 = on_hw (DMA_Cmd DISABLE) s;
          s12 = on_hw DMA_DeInit s11;
          s13 = s12\<lparr>dma_init_struct :=
                      (dma_init_struct s12)\<lparr>DMA_BufferSize := seq_len (d s12),
                                             DMA_Memory0BaseAddr := Address_sample_buf\<rparr>\<rparr>;
          s14 = on_hw (DMA_Init (dma_init_struct s13)) s13;
          s15 = on_hw (DMA_Cmd ENABLE) s14;
          s16 = on_hw (ADC_DMARequestAfterLastTransferCmd 0 ENABLE) s15;
          s17 = on_hw (ADC_DMACmd (seq_id (d s16)) ENABLE) s16
      in on_hw (DMA_ITConfig_TC ENABLE) s17)"

definition platform_adc_update_sequence :: "sys \<Rightarrow> platform_result \<times> sys" where
  "platform_adc_update_sequence s =
     (let s10 = update_sequence_adc s;
          s18 = update_sequence_dma s10;
          s19 = (if clocked (d s18) \<and> running (d s18)
                 then on_hw (ADC_TRIG_CFG (seq_id (d s18)) ENABLE) s18 else s18)
      in (PLATFORM_OK, s19))"

section \<open>ADC subsystem: rebuilding the scan list\<close>

text \<open>
  Modelled from the spec: \<^verbatim>\<open>adc_update_dev_sequence\<close> (elua_adc.c) is missing. It is
  rebuild_sequence of section 4.3: the scan list becomes the active channels in
  ascending order of channel id, its length the number of active channels, the
  channel at scan position \<open>i\<close> reads its latest value from \<open>sample_buf[i]\<close>
  (section 4.5), and the hardware is reprogrammed by \<^verbatim>\<open>platform_adc_update_sequence\<close>.
\<close>

fun set_value_ptrs :: "nat list \<Rightarrow> nat \<Rightarrow> sys \<Rightarrow> sys" where
  "set_value_ptrs [] i s = s"
| "set_value_ptrs (c # cs) i s = set_value_ptrs cs (i + 1) (on_ch c (\<lambda>x. x\<lparr>value_ptr := i\<rparr>) s)"

definition active_channels :: "sys \<Rightarrow> nat list" where
  "active_channels s = filter (\<lambda>c. CHANNEL_ACTIVE c s) [0..<NUM_ADC]"

definition adc_update_dev_sequence :: "sys \<Rightarrow> sys" where
  "adc_update_dev_sequence s =
     (let cs = active_channels s;
          s1 = on_d (\<lambda>x. x\<lparr>ch_state := cs, seq_len := length cs\<rparr>) s;
          s2 = set_value_ptrs cs 0 s1
      in snd (platform_adc_update_sequence s2))"

section \<open>ADC subsystem: the completion handler DMA2_Stream0_IRQHandler\<close>

text \<open>
  The body of the handler's while loop, in its two parts. \<open>p\<close> is the pointer
  \<^verbatim>\<open>s\<close> of the source (\<^verbatim>\<open>s = d->ch_state[ d->seq_ctr ]\<close>). First the value is marked
  fresh and either fed to the smoothing filter or, \<^verbatim>\<open>#if defined( BUF_ENABLE_ADC )\<close>
  and more than one sample is requested, written to the channel's buffer; then the
  channel is stopped if it has its samples.
\<close>

definition irq_sample :: "nat \<Rightarrow> sys \<Rightarrow> sys" where
  "irq_sample p s0 =
     (let s1 = on_ch p (\<lambda>x. x\<lparr>value_fresh := True\<rparr>) s0
      in if logsmoothlen (ch s1 p) > 0 \<and> \<not> smooth_ready (ch s1 p)
         then adc_smooth_data (ch_id (ch s1 p)) s1
         else if BUF_ENABLE_ADC (conf s1) \<and> reqsamples (ch s1 p) > 1
         then on_ch p (\<lambda>x. x\<lparr>value_fresh := False\<rparr>)
                (buf_write (ch_id (ch s1 p)) (sample_buf (d s1) ! value_ptr (ch s1 p)) s1)
         else s1)"

definition irq_check :: "nat \<Rightarrow> sys \<Rightarrow> sys" where
  "irq_check p s2 =
     (let r = adc_samples_available (ch_id (ch s2 p)) s2;
          s3 = snd r
      in if fst r \<ge> reqsamples (ch s3 p) \<and> \<not> freerunning (ch s3 p)
         then platform_adc_stop (ch_id (ch s3 p)) s3 else s3)"

definition irq_body :: "sys \<Rightarrow> sys" where
  "irq_body s0 =
     (let p = ch_state (d s0) ! seq_ctr (d s0);
          s2 = irq_sample p s0;
          s4 = irq_check p s2
      in on_d (\<lambda>x. x\<lparr>seq_ctr := seq_ctr x + 1\<rparr>) s4)"

function irq_loop :: "sys \<Rightarrow> sys" where
  "irq_loop s = (if seq_ctr (d s) < seq_len (d s) then irq_loop (irq_body s) else s)"
  by pat_completeness auto

lemma platform_adc_stop_seq:
  "seq_ctr (d (platform_adc_stop c s)) = seq_ctr (d s) \<and>
   seq_len (d (platform_adc_stop c s)) = seq_len (d s)"
  by (simp add: platform_adc_stop_def INACTIVATE_CHANNEL_def on_hw_def on_d_def on_ch_def
      Let_def)

lemma irq_body_seq:
  "seq_ctr (d (irq_body s)) = seq_ctr (d s) + 1 \<and> seq_len (d (irq_body s)) = seq_len (d s)"
  by (simp add: irq_body_def irq_sample_def irq_check_def platform_adc_stop_seq
      adc_samples_available_def buf_write_def adc_smooth_data_def on_d_def on_ch_def Let_def)

termination irq_loop
  by (relation "measure (\<lambda>s. seq_len (d s) - seq_ctr (d s))") (auto simp: irq_body_seq)

declare irq_loop.simps [simp del]

text \<open>
  The handler up to the end of its while loop (the pending bit is cleared, the loop
  runs over the scan list, the scan counter is reset), and the handler.
\<close>

definition irq_scan :: "sys \<Rightarrow> sys" where
  "irq_scan s =
     (let s1 = on_hw DMA_ClearITPendingBit s;
          s2 = on_d (\<lambda>x. x\<lparr>seq_ctr := 0\<rparr>) s1;
          s3 = irq_loop s2
      in on_d (\<lambda>x. x\<lparr>seq_ctr := 0\<rparr>) s3)"

definition DMA2_Stream0_IRQHandler :: "sys \<Rightarrow> sys" where
  "DMA2_Stream0_IRQHandler s =
     (let s4 = irq_scan s;
          s5 = (if running (d s4) then adc_update_dev_sequence s4 else s4)
      in if \<not> clocked (d s5) \<and> running (d s5)
         then on_hw (ADC_SoftwareStartConvCmd (seq_id (d s5)) ENABLE) s5 else s5)"

text \<open>
  The tests of the loop body on the channel \<open>p\<close> of a scan position: whether the
  channel has its samples with the one being delivered, whether the smoothing filter
  takes the sample, and whether the sample is written to the channel's buffer.
\<close>

definition irq_stops :: "sys \<Rightarrow> nat \<Rightarrow> bool" where
  "irq_stops s p =
     (reqsamples (ch s p) \<le> samples_delivered (ch s p) + 1 \<and> \<not> freerunning (ch s p))"

definition irq_smooths :: "sys \<Rightarrow> nat \<Rightarrow> bool" where
  "irq_smooths s p = (0 < logsmoothlen (ch s p) \<and> \<not> smooth_ready (ch s p))"

definition irq_queues :: "sys \<Rightarrow> nat \<Rightarrow> bool" where
  "irq_queues s p =
     (\<not> irq_smooths s p \<and> BUF_ENABLE_ADC (conf s) \<and> 1 < reqsamples (ch s p))"

text \<open>
  What one pass of the loop body does to the record of the channel at the scan
  position, given whether buffers are configured and the sample buffer: the two parts
  of the body, on the record alone (lemma \<open>irq_body_ch\<close>).
\<close>

definition channel_step :: "bool \<Rightarrow> u16 list \<Rightarrow> elua_adc_ch_state \<Rightarrow> elua_adc_ch_state" where
  "channel_step buffered samples x =
     (let x1 = x\<lparr>value_fresh := True\<rparr>;
          x2 = (if 0 < logsmoothlen x1 \<and> \<not> smooth_ready x1
                then x1\<lparr>smoothidx := smoothidx x1 + 1,
                        smoothsum := smoothsum x1 + ucast (samples ! value_ptr x1),
                        smooth_ready := (2 ^ logsmoothlen x1 \<le> smoothidx x1 + 1)\<rparr>
                else if buffered \<and> 1 < reqsamples x1
                then x1\<lparr>sink := snd (rbuff_push (sink x1) (samples ! value_ptr x1)),
                        value_fresh := False\<rparr>
                else x1);
          x3 = x2\<lparr>samples_delivered := samples_delivered x2 + 1\<rparr>
      in if reqsamples x3 \<le> samples_delivered x3 \<and> \<not> freerunning x3
         then x3\<lparr>op_pending := False\<rparr> else x3)"

text \<open>
  The scan list is well formed: its length is \<open>seq_len\<close>, no channel occurs
  twice, and each pointer leads to the state of the channel of that id.
\<close>

definition scan_wf :: "sys \<Rightarrow> bool" where
  "scan_wf s =
     (seq_len (d s) = length (ch_state (d s)) \<and> distinct (ch_state (d s)) \<and>
      (\<forall>p \<in> set (ch_state (d s)). ch_id (ch s p) = p))"

text \<open>The hardware after the last channel has been stopped.\<close>

definition sequencer_off :: "nat \<Rightarrow> hardware \<Rightarrow> hardware" where
  "sequencer_off n h = NVIC_Init \<lparr>NVIC_IRQChannelCmd = DISABLE\<rparr> (ADC_TRIG_CFG n DISABLE h)"

text \<open>
  The device after part of the handler's loop, \<open>t\<close>, against the device at its
  start, \<open>s\<close>: either running flag, hardware and interrupt structure are as they
  were, or no channel is active any more and the sequencer has been switched off.
\<close>

definition loop_dev :: "sys \<Rightarrow> sys \<Rightarrow> bool" where
  "loop_dev s t =
     (seq_id (d t) = seq_id (d s) \<and>
      ((running (d t) = running (d s) \<and> hw t = hw s \<and>
        nvic_init_structure_adc t = nvic_init_structure_adc s \<and>
        (ch_active (d t) = 0 \<longrightarrow> ch_active (d s) = 0)) \<or>
       (ch_active (d t) = 0 \<and> \<not> running (d t) \<and>
        hw t = sequencer_off (seq_id (d s)) (hw s) \<and>
        nvic_init_structure_adc t =
          (nvic_init_structure_adc s)\<lparr>NVIC_IRQChannelCmd := DISABLE\<rparr>)))"

text \<open>Entry \<open>p\<close> of the channel table is the state of channel \<open>p\<close>.\<close>

definition ids_ok :: "sys \<Rightarrow> bool" where
  "ids_ok s = (\<forall>p < NUM_ADC. ch_id (ch s p) = p)"

section \<open>ADC subsystem: platform_adc_set_clock and platform_adc_start_sequence\<close>

text \<open>
  The arithmetic is that of the C types: \<^verbatim>\<open>period\<close> and \<^verbatim>\<open>prescaler\<close> are
  \<^verbatim>\<open>unsigned\<close>, \<^verbatim>\<open>frequency\<close> is \<^verbatim>\<open>u32\<close>, the prescaler field of the timer is 16 bits
  wide. The division by \<^verbatim>\<open>period\<close> in the computation of the answer is undefined in C
  when \<^verbatim>\<open>period\<close> is 0, and so is the read of \<^verbatim>\<open>adc_timer\<close> (four entries) beyond its end:
  both are results of their own.
\<close>

definition TIM_GET_BASE_CLK :: "nat \<Rightarrow> sys \<Rightarrow> u32" where
  "TIM_GET_BASE_CLK n s = HCLK (conf s)"

text \<open>
  The three lines \<^verbatim>\<open>period = TIM_GET_BASE_CLK( id ) / frequency; prescaler = (period /
  0x10000) + 1; period /= prescaler;\<close>: the prescaler and the divided period.
\<close>

definition adc_clock_divide :: "u32 \<Rightarrow> u32 \<Rightarrow> u32 \<times> u32" where
  "adc_clock_divide base frequency =
     (let period = base div frequency;
          prescaler = (period div 0x10000) + 1
      in (prescaler, period div prescaler))"

definition platform_adc_set_clock :: "nat \<Rightarrow> u32 \<Rightarrow> sys \<Rightarrow> error + (u32 \<times> sys)" where
  "platform_adc_set_clock n frequency s =
     (let s1 = on_hw (ADC_TRIG_CFG (seq_id (d s)) DISABLE) s
      in if frequency > 0 then
           (if timer_id (d s1) \<ge> length adc_timer then Inl Out_Of_Bounds
            else
              (let s2 = on_d (\<lambda>x. x\<lparr>clocked := True\<rparr>) s1;
                   s3 = s2\<lparr>adc_init_struct := (adc_init_struct s2)
                          \<lparr>ADC_ExternalTrigConv := adc_timer ! timer_id (d s2),
                           ADC_ExternalTrigConvEdge := ADC_ExternalTrigConvEdge_Rising\<rparr>\<rparr>;
                   prescaler = fst (adc_clock_divide (TIM_GET_BASE_CLK n s3) frequency);
                   period = snd (adc_clock_divide (TIM_GET_BASE_CLK n s3) frequency);
                   timer_base_struct = \<lparr>TIM_Period = period - 1,
                                         TIM_Prescaler = ucast (prescaler - 1),
                                         TIM_CounterMode = TIM_CounterMode_Down\<rparr>;
                   s4 = on_hw (TIM_TimeBaseInit (timer_id (d s3)) timer_base_struct) s3
               in if period = 0 then Inl Division_By_Zero
                  else
                    (let frequency' =
                           (TIM_GET_BASE_CLK n s4
                              div (ucast (TIM_GetPrescaler (timer_id (d s4)) (hw s4)) + 1))
                             div period;
                         s5 = on_hw (TIM_SelectOutputTrigger_Update (timer_id (d s4))) s4;
                         s6 = on_hw (ADC_Init (seq_id (d s5)) (adc_init_struct s5)) s5
                     in Inr (frequency', s6))))
         else
           (let s2 = on_d (\<lambda>x. x\<lparr>clocked := False\<rparr>) s1;
                s3 = s2\<lparr>adc_init_struct := (adc_init_struct s2)
                       \<lparr>ADC_ExternalTrigConvEdge := ADC_ExternalTrigConvEdge_None\<rparr>\<rparr>;
                s4 = on_hw (ADC_Init (seq_id (d s3)) (adc_init_struct s3)) s3
            in Inr (frequency, s4)))"

definition platform_adc_start_sequence :: "sys \<Rightarrow> platform_result \<times> sys" where
  "platform_adc_start_sequence s =
     (if \<not> running (d s) then
        (let s1 = adc_update_dev_sequence s;
             s2 = on_d (\<lambda>x. x\<lparr>running := True\<rparr>) s1;
             s3 = on_hw DMA_ClearITPendingBit s2;
             s4 = s3\<lparr>nvic_init_structure_adc :=
                       (nvic_init_structure_adc s3)\<lparr>NVIC_IRQChannelCmd := ENABLE\<rparr>\<rparr>;
             s5 = on_hw (NVIC_Init (nvic_init_structure_adc s4)) s4;
             s6 = (if clocked (d s5) then on_hw (ADC_TRIG_CFG (seq_id (d s5)) ENABLE) s5
                   else on_hw (ADC_SoftwareStartConvCmd (seq_id (d s5)) ENABLE) s5)
         in (PLATFORM_OK, s6))
      else (PLATFORM_OK, s))"

text \<open>
  The software-triggered mode, in the state: the device is not clocked, the trigger
  edge of the initialisation structure that every \<^verbatim>\<open>ADC_Init\<close> applies is "none", and
  the converter of the sequencer does not react to the timer's trigger.
\<close>

definition sw_mode :: "sys \<Rightarrow> bool" where
  "sw_mode s =
     (\<not> clocked (d s) \<and>
      ADC_ExternalTrigConvEdge (adc_init_struct s) = ADC_ExternalTrigConvEdge_None \<and>
      \<not> trigger_enabled (seq_id (d s)) (hw s))"

section \<open>ADC subsystem: initialisation, start of a channel, completion of a scan\<close>

text \<open>
  \<^verbatim>\<open>adcs_init\<close> of platform.c. The clock enables and \<^verbatim>\<open>ADC_CommonInit\<close> act on
  hardware that is not part of \<open>hardware\<close> and are left out.
\<close>

definition adcs_init :: "sys \<Rightarrow> error + sys" where
  "adcs_init s =
     (let s1 = fold adc_init_ch_state [0..<NUM_ADC] s;
          s2 = on_hw ADC_DeInit s1;
          s3 = s2\<lparr>adc_init_struct := ADC_StructInit\<rparr>;
          s4 = s3\<lparr>adc_init_struct := (adc_init_struct s3)
                 \<lparr>ADC_ScanConvMode := ENABLE, ADC_ContinuousConvMode := DISABLE,
                  ADC_ExternalTrigConv := ADC_ExternalTrigConv_T3_TRGO,
                  ADC_ExternalTrigConvEdge := ADC_ExternalTrigConvEdge_None,
                  ADC_NbrOfConversion := 1\<rparr>\<rparr>;
          s5 = on_hw (ADC_Init (seq_id (d s4)) (adc_init_struct s4)) s4;
          s6 = on_hw (ADC_Cmd (seq_id (d s5)) ENABLE) s5;
          s7 = on_hw DMA_DeInit s6;
          s8 = s7\<lparr>dma_init_struct := DMA_StructInit\<rparr>;
          s9 = s8\<lparr>dma_init_struct := (dma_init_struct s8)
                 \<lparr>DMA_PeripheralBaseAddr := ADC1_DR_Address,
                  DMA_Memory0BaseAddr := Address_sample_buf,
                  DMA_DIR := DMA_DIR_PeripheralToMemory, DMA_BufferSize := 1,
                  DMA_PeripheralInc := DISABLE, DMA_MemoryInc := ENABLE,
                  DMA_Mode := DMA_Mode_Circular\<rparr>\<rparr>;
          s10 = on_hw (DMA_Init (dma_init_struct s9)) s9;
          s11 = on_hw DMA_ClearFlag s10;
          s12 = on_hw DMA_ClearITPendingBit s11;
          s13 = on_hw (ADC_DMARequestAfterLastTransferCmd 0 DISABLE) s12;
          s14 = on_hw (ADC_DMACmd 0 ENABLE) s13;
          s15 = on_hw (DMA_Cmd ENABLE) s14;
          s16 = on_hw (DMA_ITConfig_TC ENABLE) s15
      in case platform_adc_set_clock 0 0 s16 of
           Inl e \<Rightarrow> Inl e
         | Inr r \<Rightarrow> Inr (snd r))"

text \<open>
  The state before \<^verbatim>\<open>adcs_init\<close>: the statics are zero, the hardware is in its
  reset state, and \<^verbatim>\<open>NVIC_Configuration\<close> has set up the interrupt of the DMA stream
  as disabled.
\<close>

definition boot :: "platform_conf \<Rightarrow> sys" where
  "boot c =
     \<lparr>conf = c,
      d = \<lparr>ch_state = [], sample_buf = replicate NUM_ADC 0, clocked = False,
           running = False, ch_active = 0, seq_ctr = 0, seq_len = 0, timer_id = 0,
           seq_id = 0\<rparr>,
      ch = (\<lambda>n. \<lparr>op_pending = False, freerunning = False, smooth_ready = False,
                  value_fresh = False, ch_id = 0, logsmoothlen = 0, smoothidx = 0,
                  smoothsum = 0, reqsamples = 0, samples_delivered = 0, value_ptr = 0,
                  sink = rbuff_new 0 0\<rparr>),
      adc_init_struct = ADC_StructInit,
      dma_init_struct = DMA_StructInit,
      nvic_init_structure_adc = \<lparr>NVIC_IRQChannelCmd = DISABLE\<rparr>,
      hw = \<lparr>ADCx = (\<lambda>n. ADC_reset),
            DMA2_Stream0 = \<lparr>dma_on = False, dma_conf = None, dma_it_tc = False,
                            dma_tcif = False\<rparr>,
            NVIC_DMA2_Stream0_IRQ = False,
            TIMx = (\<lambda>n. \<lparr>tim_base = None, tim_trgo_update = False\<rparr>),
            gpio_analog = []\<rparr>\<rparr>"

text \<open>
  Modelled from the spec: the channel half of start (the channel set-up of
  elua_adc.c) is missing. Section 4.4: start marks the channel active and resets
  \<open>samples_delivered\<close> and \<open>smoothing_ready\<close>; a requested sample count of 0 is the
  free-running channel (section 3). The device half of start is
  \<^verbatim>\<open>platform_adc_start_sequence\<close> of platform.c.
\<close>

definition adc_setup_channel :: "nat \<Rightarrow> u32 \<Rightarrow> nat \<Rightarrow> sys \<Rightarrow> sys" where
  "adc_setup_channel c k depth s =
     ACTIVATE_CHANNEL c
       (on_ch c (\<lambda>x. x\<lparr>reqsamples := k, freerunning := (k = 0), logsmoothlen := depth,
                       smooth_ready := False, smoothidx := 0, smoothsum := 0,
                       samples_delivered := 0\<rparr>) s)"

definition start :: "nat \<Rightarrow> u32 \<Rightarrow> nat \<Rightarrow> sys \<Rightarrow> sys" where
  "start c k depth s = snd (platform_adc_start_sequence (adc_setup_channel c k depth s))"

text \<open>
  Modelled from the spec: the hardware's side of a completed scan. The transfer
  engine has stored the samples of the scan in \<^verbatim>\<open>sample_buf\<close> and raised its
  completion flag; the handler runs if the interrupt of the DMA stream is enabled in
  the interrupt controller and in the stream.
\<close>

definition scan_complete :: "u16 list \<Rightarrow> sys \<Rightarrow> sys" where
  "scan_complete samples s =
     (let s1 = on_d (\<lambda>x. x\<lparr>sample_buf := samples\<rparr>) s;
          s2 = on_hw (on_dma (\<lambda>m. m\<lparr>dma_tcif := True\<rparr>)) s1
      in if NVIC_DMA2_Stream0_IRQ (hw s2) \<and> dma_it_tc (DMA2_Stream0 (hw s2))
         then DMA2_Stream0_IRQHandler s2 else s2)"


text \<open>
  The two states of a channel \<open>c\<close> with a requested sample count \<open>k\<close> between its
  start and the end of the request. Sampled: the channel is active and in the scan list
  of a running device whose completion interrupt is enabled. Done with \<open>n\<close> samples:
  the channel is inactive with no operation pending, and whenever the completion
  interrupt is enabled the channel is not in the scan list.
\<close>

definition sampling :: "nat \<Rightarrow> u32 \<Rightarrow> sys \<Rightarrow> bool" where
  "sampling c k s =
     (scan_wf s \<and> ids_ok s \<and> c < NUM_ADC \<and> c \<in> set (ch_state (d s)) \<and>
      CHANNEL_ACTIVE c s \<and> running (d s) \<and>
      NVIC_DMA2_Stream0_IRQ (hw s) \<and> dma_it_tc (DMA2_Stream0 (hw s)) \<and>
      reqsamples (ch s c) = k \<and> \<not> freerunning (ch s c))"


section \<open>Concrete states\<close>

text \<open>
  A configuration with the 168 MHz clock of the STM32F4 and buffered ADC channels
  (ring buffers of 8 slots),
  and the state that \<^verbatim>\<open>adcs_init\<close> reaches from it after boot, with timer 2 as the
  ADC's trigger timer (\<^verbatim>\<open>platform_adc_check_timer_id\<close> admits timer ids 1 and 2).
\<close>

definition demo_conf :: platform_conf where
  "demo_conf = \<lparr>HCLK = 168000000, BUF_ENABLE_ADC = True, ADC_BUF_SIZE = 8\<rparr>"

definition demo_init :: sys where
  "demo_init =
     (case adcs_init (boot demo_conf) of
        Inr s \<Rightarrow> on_d (\<lambda>x. x\<lparr>timer_id := 2\<rparr>) s
      | Inl e \<Rightarrow> boot demo_conf)"

section \<open>Ring buffer: properties\<close>



section \<open>ADC subsystem: basic facts\<close>

lemmas hw_defs = ADC_ExternalTrigConvCmd_def ADC_SoftwareStartConvCmd_def ADC_TRIG_CFG_def
  ADC_DeInit_def ADC_Cmd_def ADC_DMACmd_def ADC_DMARequestAfterLastTransferCmd_def
  ADC_RegularChannelConfig_def ADC_Init_def GPIO_Init_analog_def DMA_Cmd_def DMA_DeInit_def
  DMA_Init_def DMA_ITConfig_TC_def DMA_ClearITPendingBit_def DMA_ClearFlag_def NVIC_Init_def
  TIM_TimeBaseInit_def TIM_SelectOutputTrigger_Update_def on_adc_def on_dma_def on_tim_def

lemma on_hw_simps [simp]:
  "conf (on_hw f s) = conf s" "d (on_hw f s) = d s" "ch (on_hw f s) = ch s"
  "adc_init_struct (on_hw f s) = adc_init_struct s"
  "dma_init_struct (on_hw f s) = dma_init_struct s"
  "nvic_init_structure_adc (on_hw f s) = nvic_init_structure_adc s"
  "hw (on_hw f s) = f (hw s)"
  by (simp_all add: on_hw_def)

lemma on_d_simps [simp]:
  "conf (on_d f s) = conf s" "d (on_d f s) = f (d s)" "ch (on_d f s) = ch s"
  "adc_init_struct (on_d f s) = adc_init_struct s"
  "dma_init_struct (on_d f s) = dma_init_struct s"
  "nvic_init_structure_adc (on_d f s) = nvic_init_structure_adc s"
  "hw (on_d f s) = hw s"
  by (simp_all add: on_d_def)

lemma on_ch_simps [simp]:
  "conf (on_ch c f s) = conf s" "d (on_ch c f s) = d s"
  "ch (on_ch c f s) = (ch s)(c := f (ch s c))"
  "adc_init_struct (on_ch c f s) = adc_init_struct s"
  "dma_init_struct (on_ch c f s) = dma_init_struct s"
  "nvic_init_structure_adc (on_ch c f s) = nvic_init_structure_adc s"
  "hw (on_ch c f s) = hw s"
  by (simp_all add: on_ch_def)

lemma channel_active_bit: "CHANNEL_ACTIVE c s \<longleftrightarrow> bit (ch_active (d s)) c"
  by (simp add: CHANNEL_ACTIVE_def and_exp_eq_0_iff_not_bit)

lemma mask_clear_bit: "bit ((w :: u32) AND NOT (2 ^ c)) n \<longleftrightarrow> bit w n \<and> n \<noteq> c"
  by (auto simp add: bit_simps dest: bit_imp_le_length)

lemma mask_set_bit: "c < 32 \<Longrightarrow> bit ((w :: u32) OR 2 ^ c) n \<longleftrightarrow> bit w n \<or> n = c"
  by (auto simp add: bit_simps dest: bit_imp_le_length)

lemma mask_zero: "((w :: u32) AND NOT (2 ^ c) = 0) = (\<forall>n. bit w n \<longrightarrow> n = c)"
proof
  assume z: "w AND NOT (2 ^ c) = 0"
  show "\<forall>n. bit w n \<longrightarrow> n = c"
  proof (intro allI impI)
    fix n assume "bit w n"
    show "n = c"
    proof (rule ccontr)
      assume "n \<noteq> c"
      with \<open>bit w n\<close> have "bit (w AND NOT (2 ^ c)) n" by (simp add: mask_clear_bit)
      with z show False by simp
    qed
  qed
next
  assume a: "\<forall>n. bit w n \<longrightarrow> n = c"
  show "w AND NOT (2 ^ c) = 0"
    by (rule bit_eqI) (use a in \<open>auto simp: mask_clear_bit\<close>)
qed

lemma trig_off [simp]:
  "((w :: u32) AND CR2_EXTEN_RESET OR ADC_ExternalTrigConvEdge_None) AND NOT CR2_EXTEN_RESET = 0"
  by (simp add: CR2_EXTEN_RESET_def ADC_ExternalTrigConvEdge_None_def word_bw_assocs)

lemma trig_on [simp]:
  "((w :: u32) AND CR2_EXTEN_RESET OR ADC_ExternalTrigConvEdge_Rising) AND NOT CR2_EXTEN_RESET \<noteq> 0"
  by (simp add: CR2_EXTEN_RESET_def ADC_ExternalTrigConvEdge_Rising_def word_bw_assocs word_ao_dist)

lemma sw_keeps [simp]:
  "((w :: u32) OR ADC_CR2_SWSTART) AND NOT CR2_EXTEN_RESET = w AND NOT CR2_EXTEN_RESET"
  by (simp add: CR2_EXTEN_RESET_def ADC_CR2_SWSTART_def word_bw_assocs word_ao_dist)

lemma sw_set [simp]: "((w :: u32) OR ADC_CR2_SWSTART) AND ADC_CR2_SWSTART \<noteq> 0"
  by (simp add: ADC_CR2_SWSTART_def word_bw_assocs word_ao_dist)

subsection \<open>What platform_adc_stop does to each part of the state\<close>

lemma platform_adc_stop_ch:
  "ch (platform_adc_stop c s) = (ch s)(c := (ch s c)\<lparr>op_pending := False\<rparr>)"
  by (simp add: platform_adc_stop_def INACTIVATE_CHANNEL_def Let_def)

lemma platform_adc_stop_d:
  "d (platform_adc_stop c s) =
     (d s)\<lparr>ch_active := ch_active (d s) AND NOT (push_bit c 1),
           running := (if ch_active (d s) AND NOT (push_bit c 1) = 0 then False
                       else running (d s))\<rparr>"
  by (simp add: platform_adc_stop_def INACTIVATE_CHANNEL_def Let_def)

lemma platform_adc_stop_hw:
  "hw (platform_adc_stop c s) =
     (if ch_active (d s) AND NOT (push_bit c 1) = 0
      then NVIC_Init \<lparr>NVIC_IRQChannelCmd = DISABLE\<rparr> (ADC_TRIG_CFG (seq_id (d s)) DISABLE (hw s))
      else hw s)"
  by (simp add: platform_adc_stop_def INACTIVATE_CHANNEL_def Let_def NVIC_Init_def)

lemma platform_adc_stop_structs:
  "conf (platform_adc_stop c s) = conf s"
  "adc_init_struct (platform_adc_stop c s) = adc_init_struct s"
  "dma_init_struct (platform_adc_stop c s) = dma_init_struct s"
  "nvic_init_structure_adc (platform_adc_stop c s) =
     (if ch_active (d s) AND NOT (push_bit c 1) = 0
      then (nvic_init_structure_adc s)\<lparr>NVIC_IRQChannelCmd := DISABLE\<rparr>
      else nvic_init_structure_adc s)"
  by (simp_all add: platform_adc_stop_def INACTIVATE_CHANNEL_def Let_def)

subsection \<open>Initialisation\<close>

lemma set_clock_zero:
  "platform_adc_set_clock n 0 s =
     Inr (0, on_hw (ADC_Init (seq_id (d s))
                 ((adc_init_struct s)\<lparr>ADC_ExternalTrigConvEdge := ADC_ExternalTrigConvEdge_None\<rparr>))
              ((on_d (\<lambda>x. x\<lparr>clocked := False\<rparr>)
                 (on_hw (ADC_TRIG_CFG (seq_id (d s)) DISABLE) s))
                 \<lparr>adc_init_struct := (adc_init_struct s)
                    \<lparr>ADC_ExternalTrigConvEdge := ADC_ExternalTrigConvEdge_None\<rparr>\<rparr>))"
  by (simp add: platform_adc_set_clock_def Let_def)

lemma fold_init_d:
  "d (fold adc_init_ch_state cs s) =
     (d s)\<lparr>ch_active := fold (\<lambda>c w. w AND NOT (push_bit c 1)) cs (ch_active (d s))\<rparr>"
  by (induction cs arbitrary: s) (simp_all add: adc_init_ch_state_def INACTIVATE_CHANNEL_def)

lemma fold_init_other:
  "conf (fold adc_init_ch_state cs s) = conf s"
  "hw (fold adc_init_ch_state cs s) = hw s"
  "adc_init_struct (fold adc_init_ch_state cs s) = adc_init_struct s"
  "dma_init_struct (fold adc_init_ch_state cs s) = dma_init_struct s"
  "nvic_init_structure_adc (fold adc_init_ch_state cs s) = nvic_init_structure_adc s"
  by (induction cs arbitrary: s; simp add: adc_init_ch_state_def INACTIVATE_CHANNEL_def)+

lemma fold_init_ch_id:
  "ch_id (ch (fold adc_init_ch_state cs s) c) = (if c \<in> set cs then c else ch_id (ch s c))"
  by (induction cs arbitrary: s) (auto simp add: adc_init_ch_state_def INACTIVATE_CHANNEL_def)

lemma fold_clear_zero [simp]: "fold (\<lambda>c w. w AND NOT (2 ^ c)) cs (0 :: u32) = 0"
  by (induction cs) simp_all

lemma adcs_init_ok: "\<exists>s'. adcs_init s = Inr s'"
  by (simp add: adcs_init_def Let_def set_clock_zero)

lemma adcs_init_d:
  "adcs_init s = Inr s' \<Longrightarrow>
   d s' = (d s)\<lparr>clocked := False,
               ch_active := fold (\<lambda>c w. w AND NOT (push_bit c 1)) [0..<NUM_ADC] (ch_active (d s))\<rparr>"
  by (auto simp add: adcs_init_def Let_def set_clock_zero fold_init_d)

lemma demo_init_d: "d demo_init = (d (boot demo_conf))\<lparr>timer_id := 2\<rparr>"
proof -
  obtain s' where s': "adcs_init (boot demo_conf) = Inr s'"
    using adcs_init_ok by blast
  have "ch_active (d (boot demo_conf)) = 0" "\<not> clocked (d (boot demo_conf))"
    by (simp_all add: boot_def)
  then show ?thesis
    using adcs_init_d [OF s'] by (simp add: demo_init_def s')
qed

lemma adcs_init_result:
  "adcs_init s = Inr s' \<Longrightarrow>
   conf s' = conf s \<and>
   ch s' = ch (fold adc_init_ch_state [0..<NUM_ADC] s) \<and>
   adc_init_struct s' =
     \<lparr>ADC_ScanConvMode = ENABLE, ADC_ContinuousConvMode = DISABLE,
      ADC_ExternalTrigConv = ADC_ExternalTrigConv_T3_TRGO,
      ADC_ExternalTrigConvEdge = ADC_ExternalTrigConvEdge_None, ADC_NbrOfConversion = 1\<rparr> \<and>
   dma_init_struct s' =
     \<lparr>DMA_PeripheralBaseAddr = ADC1_DR_Address, DMA_Memory0BaseAddr = Address_sample_buf,
      DMA_DIR = DMA_DIR_PeripheralToMemory, DMA_BufferSize = 1, DMA_PeripheralInc = DISABLE,
      DMA_MemoryInc = ENABLE, DMA_Mode = DMA_Mode_Circular\<rparr> \<and>
   nvic_init_structure_adc s' = nvic_init_structure_adc s"
  by (auto simp add: adcs_init_def Let_def set_clock_zero fold_init_other ADC_StructInit_def
      DMA_StructInit_def)

lemma adcs_init_hw:
  "adcs_init s = Inr s' \<Longrightarrow> seq_id (d s) = 0 \<Longrightarrow>
   hw s' = (hw s)
     \<lparr>ADCx := (\<lambda>n. ADC_reset)
        (0 := \<lparr>CR2 = 0, adc_on = True, adc_dma = True, adc_dds = False,
               adc_conf = Some \<lparr>ADC_ScanConvMode = ENABLE, ADC_ContinuousConvMode = DISABLE,
                 ADC_ExternalTrigConv = ADC_ExternalTrigConv_T3_TRGO,
                 ADC_ExternalTrigConvEdge = ADC_ExternalTrigConvEdge_None,
                 ADC_NbrOfConversion = 1\<rparr>,
               adc_sqr = []\<rparr>),
      DMA2_Stream0 := \<lparr>dma_on = True,
         dma_conf = Some \<lparr>DMA_PeripheralBaseAddr = ADC1_DR_Address,
           DMA_Memory0BaseAddr = Address_sample_buf, DMA_DIR = DMA_DIR_PeripheralToMemory,
           DMA_BufferSize = 1, DMA_PeripheralInc = DISABLE, DMA_MemoryInc = ENABLE,
           DMA_Mode = DMA_Mode_Circular\<rparr>,
         dma_it_tc = True, dma_tcif = False\<rparr>\<rparr>"
  apply (auto simp add: adcs_init_def Let_def set_clock_zero fold_init_other fold_init_d ADC_StructInit_def
      DMA_StructInit_def hw_defs ADC_reset_def ADC_ExternalTrigConvEdge_None_def)
  done

lemma demo_init_fields:
  "conf demo_init = demo_conf"
  "adc_init_struct demo_init =
     \<lparr>ADC_ScanConvMode = ENABLE, ADC_ContinuousConvMode = DISABLE,
      ADC_ExternalTrigConv = ADC_ExternalTrigConv_T3_TRGO,
      ADC_ExternalTrigConvEdge = ADC_ExternalTrigConvEdge_None, ADC_NbrOfConversion = 1\<rparr>"
  "dma_init_struct demo_init =
     \<lparr>DMA_PeripheralBaseAddr = ADC1_DR_Address, DMA_Memory0BaseAddr = Address_sample_buf,
      DMA_DIR = DMA_DIR_PeripheralToMemory, DMA_BufferSize = 1, DMA_PeripheralInc = DISABLE,
      DMA_MemoryInc = ENABLE, DMA_Mode = DMA_Mode_Circular\<rparr>"
  "nvic_init_structure_adc demo_init = \<lparr>NVIC_IRQChannelCmd = DISABLE\<rparr>"
  "ch_id (ch demo_init c) = (if c < NUM_ADC then c else 0)"
proof -
  obtain s' where s': "adcs_init (boot demo_conf) = Inr s'"
    using adcs_init_ok by blast
  note r = adcs_init_result [OF s']
  show "conf demo_init = demo_conf"
    using r by (simp add: demo_init_def s') (simp add: boot_def)
  show "adc_init_struct demo_init =
     \<lparr>ADC_ScanConvMode = ENABLE, ADC_ContinuousConvMode = DISABLE,
      ADC_ExternalTrigConv = ADC_ExternalTrigConv_T3_TRGO,
      ADC_ExternalTrigConvEdge = ADC_ExternalTrigConvEdge_None, ADC_NbrOfConversion = 1\<rparr>"
    using r by (simp add: demo_init_def s')
  show "dma_init_struct demo_init =
     \<lparr>DMA_PeripheralBaseAddr = ADC1_DR_Address, DMA_Memory0BaseAddr = Address_sample_buf,
      DMA_DIR = DMA_DIR_PeripheralToMemory, DMA_BufferSize = 1, DMA_PeripheralInc = DISABLE,
      DMA_MemoryInc = ENABLE, DMA_Mode = DMA_Mode_Circular\<rparr>"
    using r by (simp add: demo_init_def s')
  show "nvic_init_structure_adc demo_init = \<lparr>NVIC_IRQChannelCmd = DISABLE\<rparr>"
    using r by (simp add: demo_init_def s') (simp add: boot_def)
  show "ch_id (ch demo_init c) = (if c < NUM_ADC then c else 0)"
    using r by (simp add: demo_init_def s' fold_init_ch_id) (simp add: boot_def)
qed

lemma demo_init_hw:
  "hw demo_init =
     \<lparr>ADCx = (\<lambda>n. ADC_reset)
        (0 := \<lparr>CR2 = 0, adc_on = True, adc_dma = True, adc_dds = False,
               adc_conf = Some \<lparr>ADC_ScanConvMode = ENABLE, ADC_ContinuousConvMode = DISABLE,
                 ADC_ExternalTrigConv = ADC_ExternalTrigConv_T3_TRGO,
                 ADC_ExternalTrigConvEdge = ADC_ExternalTrigConvEdge_None,
                 ADC_NbrOfConversion = 1\<rparr>,
               adc_sqr = []\<rparr>),
      DMA2_Stream0 = \<lparr>dma_on = True,
         dma_conf = Some \<lparr>DMA_PeripheralBaseAddr = ADC1_DR_Address,
           DMA_Memory0BaseAddr = Address_sample_buf, DMA_DIR = DMA_DIR_PeripheralToMemory,
           DMA_BufferSize = 1, DMA_PeripheralInc = DISABLE, DMA_MemoryInc = ENABLE,
           DMA_Mode = DMA_Mode_Circular\<rparr>,
         dma_it_tc = True, dma_tcif = False\<rparr>,
      NVIC_DMA2_Stream0_IRQ = False,
      TIMx = (\<lambda>n. \<lparr>tim_base = None, tim_trgo_update = False\<rparr>),
      gpio_analog = []\<rparr>"
proof -
  obtain s' where s': "adcs_init (boot demo_conf) = Inr s'"
    using adcs_init_ok by blast
  have "seq_id (d (boot demo_conf)) = 0" by (simp add: boot_def)
  from adcs_init_hw [OF s' this] show ?thesis
    by (simp add: demo_init_def s') (simp add: boot_def)
qed

lemma demo_init_ch_active: "ch_active (d demo_init) = 0"
  by (simp add: demo_init_d boot_def)

section \<open>ADC subsystem: stopping a channel and starting the sequencer\<close>

text \<open>
  Claim C5. For every channel id \<open>c\<close>, \<^verbatim>\<open>platform_adc_stop\<close> marks channel \<open>c\<close>
  inactive and clears its \<open>op_pending\<close> flag, leaving the other channels as they
  were; if no other channel was active, it also disables the hardware trigger and the
  completion interrupt and clears the device's \<open>running\<close> flag; if another channel
  was active, \<open>running\<close> and the hardware stay as they were.
\<close>

theorem platform_adc_stop_effect:
  assumes "c < NUM_ADC"
  shows
  "\<not> CHANNEL_ACTIVE c (platform_adc_stop c s) \<and>
   \<not> op_pending (ch (platform_adc_stop c s) c) \<and>
   (\<forall>c'. c' \<noteq> c \<longrightarrow>
      CHANNEL_ACTIVE c' (platform_adc_stop c s) = CHANNEL_ACTIVE c' s \<and>
      ch (platform_adc_stop c s) c' = ch s c') \<and>
   ((\<forall>c'. CHANNEL_ACTIVE c' s \<longrightarrow> c' = c) \<longrightarrow>
      \<not> trigger_enabled (seq_id (d (platform_adc_stop c s))) (hw (platform_adc_stop c s)) \<and>
      \<not> NVIC_DMA2_Stream0_IRQ (hw (platform_adc_stop c s)) \<and>
      \<not> running (d (platform_adc_stop c s))) \<and>
   ((\<exists>c'. c' \<noteq> c \<and> CHANNEL_ACTIVE c' s) \<longrightarrow>
      running (d (platform_adc_stop c s)) = running (d s) \<and>
      hw (platform_adc_stop c s) = hw s)"
proof -
  have last: "(ch_active (d s) AND NOT (2 ^ c) = 0) = (\<forall>c'. CHANNEL_ACTIVE c' s \<longrightarrow> c' = c)"
    by (simp add: mask_zero channel_active_bit)
  show ?thesis
    by (auto simp: channel_active_bit platform_adc_stop_d platform_adc_stop_ch
        platform_adc_stop_hw mask_clear_bit last [unfolded channel_active_bit]
        trigger_enabled_def hw_defs)
qed


theorem platform_adc_stop_effect_witness:
  "(2 :: nat) < NUM_ADC \<and>
   ch_active (d (ACTIVATE_CHANNEL 2 (on_d (\<lambda>x. x\<lparr>running := True\<rparr>) demo_init))) = 4 \<and>
   \<not> CHANNEL_ACTIVE 2
       (platform_adc_stop 2 (ACTIVATE_CHANNEL 2 (on_d (\<lambda>x. x\<lparr>running := True\<rparr>) demo_init))) \<and>
   \<not> running (d (platform_adc_stop 2
       (ACTIVATE_CHANNEL 2 (on_d (\<lambda>x. x\<lparr>running := True\<rparr>) demo_init)))) \<and>
   \<not> NVIC_DMA2_Stream0_IRQ (hw (platform_adc_stop 2
       (ACTIVATE_CHANNEL 2 (on_d (\<lambda>x. x\<lparr>running := True\<rparr>) demo_init)))) \<and>
   CHANNEL_ACTIVE 3
     (ACTIVATE_CHANNEL 3 (ACTIVATE_CHANNEL 2 (on_d (\<lambda>x. x\<lparr>running := True\<rparr>) demo_init))) \<and>
   running (d (platform_adc_stop 2
     (ACTIVATE_CHANNEL 3 (ACTIVATE_CHANNEL 2 (on_d (\<lambda>x. x\<lparr>running := True\<rparr>) demo_init)))))"
proof -
  let ?s0 = "on_d (\<lambda>x. x\<lparr>running := True\<rparr>) demo_init"
  have mk: "ch_active (d (ACTIVATE_CHANNEL 2 ?s0)) = 4"
    by (simp add: ACTIVATE_CHANNEL_def demo_init_ch_active)
  have "(4 :: u32) AND NOT (2 ^ 2) = 0"
    by simp
  then have "\<forall>n. bit (4 :: u32) n \<longrightarrow> n = 2"
    by (simp only: mask_zero)
  then have one: "\<forall>c'. CHANNEL_ACTIVE c' (ACTIVATE_CHANNEL 2 ?s0) \<longrightarrow> c' = 2"
    unfolding channel_active_bit mk .
  have two: "\<exists>c'. c' \<noteq> 2 \<and> CHANNEL_ACTIVE c' (ACTIVATE_CHANNEL 3 (ACTIVATE_CHANNEL 2 ?s0))"
    by (rule exI [of _ 3])
      (simp add: CHANNEL_ACTIVE_def ACTIVATE_CHANNEL_def demo_init_ch_active)
  show ?thesis
    using platform_adc_stop_effect [of 2 "ACTIVATE_CHANNEL 2 ?s0"]
      platform_adc_stop_effect [of 2 "ACTIVATE_CHANNEL 3 (ACTIVATE_CHANNEL 2 ?s0)"] one two
    by (simp add: NUM_ADC_def ACTIVATE_CHANNEL_def CHANNEL_ACTIVE_def demo_init_ch_active)
qed

text \<open>
  Claim C9. If the device is already running, \<^verbatim>\<open>platform_adc_start_sequence\<close> answers
  \<^verbatim>\<open>PLATFORM_OK\<close> and leaves the whole state as it was: device and channel state, the
  init structures and the hardware (trigger, pending flags, interrupt configuration).
  The re-arm body is the other branch of the test.
\<close>

theorem platform_adc_start_sequence_running:
  "running (d s) \<Longrightarrow> platform_adc_start_sequence s = (PLATFORM_OK, s)"
  by (simp add: platform_adc_start_sequence_def)

theorem platform_adc_start_sequence_running_witness:
  "running (d (on_d (\<lambda>x. x\<lparr>running := True\<rparr>) demo_init)) \<and>
   platform_adc_start_sequence (on_d (\<lambda>x. x\<lparr>running := True\<rparr>) demo_init) =
     (PLATFORM_OK, on_d (\<lambda>x. x\<lparr>running := True\<rparr>) demo_init)"
  using platform_adc_start_sequence_running [of "on_d (\<lambda>x. x\<lparr>running := True\<rparr>) demo_init"]
  by simp

section \<open>ADC subsystem: the clock\<close>

lemma div_succ_bound: "0 < (M :: nat) \<Longrightarrow> p0 div (p0 div M + 1) < M"
proof -
  assume M: "0 < M"
  have "p0 mod M < M" using M by simp
  moreover have "p0 = p0 div M * M + p0 mod M" by simp
  ultimately have "p0 < p0 div M * M + M" by linarith
  then have "p0 < M * (p0 div M + 1)" by (simp add: algebra_simps)
  then show ?thesis by (rule less_mult_imp_div_less)
qed

lemma div_succ_pos: "1 < (M :: nat) \<Longrightarrow> 1 \<le> p0 \<Longrightarrow> 1 \<le> p0 div (p0 div M + 1)"
proof -
  assume M: "1 < M" and p: "1 \<le> p0"
  then have "p0 div M < p0" by (simp add: div_less_dividend)
  then have "p0 div M + 1 \<le> p0" by simp
  then have "0 < p0 div (p0 div M + 1)"
    by (simp only: div_greater_zero_iff) simp
  then show ?thesis by simp
qed


lemma unat_div_div_bound: "unat (b :: u32) div n div 65536 < 65536"
proof -
  have "unat b div n \<le> unat b" by (rule div_le_dividend)
  also have "unat b < 65536 * 65536" using unsigned_less [of b, where 'a = nat] by simp
  finally show ?thesis by (rule less_mult_imp_div_less)
qed

lemma unat_clock_divide:
  "unat (fst (adc_clock_divide b f)) = unat b div unat f div 65536 + 1"
  "unat (snd (adc_clock_divide b f)) = unat b div unat f div (unat b div unat f div 65536 + 1)"
proof -
  have lt: "unat b div unat f div 65536 + 1 < 2 ^ 32"
    using unat_div_div_bound [of b "unat f"] by simp
  have q: "unat (b div f div 0x10000) = unat b div unat f div 65536"
    by (simp add: unat_div)
  have "unat (b div f div 0x10000 + 1) = (unat (b div f div 0x10000) + unat (1 :: u32)) mod 2 ^ 32"
    by (simp add: unat_word_ariths)
  with lt show 1: "unat (fst (adc_clock_divide b f)) = unat b div unat f div 65536 + 1"
    by (simp add: adc_clock_divide_def Let_def q)
  show "unat (snd (adc_clock_divide b f)) = unat b div unat f div (unat b div unat f div 65536 + 1)"
    using 1 by (simp add: adc_clock_divide_def Let_def unat_div)
qed









text \<open>
  Claim C10. The divided period is below \<open>0x10000\<close> for every request, but for a
  request above the base clock it is 0, and the value \<open>period - 1\<close> written to the
  period register wraps around to \<open>0xFFFFFFFF\<close>, which does not fit the 16-bit
  counter. (For requests from 1 up to the base clock the register value fits:
  \<open>adc_clock_divide_fits\<close> below.)
\<close>

theorem adc_clock_divide_above_base_clock:
  "adc_clock_divide 168000000 168000001 = (1, 0) \<and>
   unat (snd (adc_clock_divide 168000000 168000001) - 1) = 4294967295"
  by (simp add: adc_clock_divide_def unsigned_minus_1_eq_mask mask_eq_exp_minus_1)

lemma adc_clock_divide_fits:
  "unat (snd (adc_clock_divide b f)) < 65536"
  "0 < f \<Longrightarrow> f \<le> b \<Longrightarrow> unat (snd (adc_clock_divide b f) - 1) < 65535"
proof -
  show 1: "unat (snd (adc_clock_divide b f)) < 65536"
    using div_succ_bound [of 65536 "unat b div unat f"] by (simp add: unat_clock_divide)
  assume "0 < f" "f \<le> b"
  then have "1 \<le> unat b div unat f"
    by (simp add: word_less_nat_alt word_le_nat_alt Suc_leI div_greater_zero_iff)
  then have "1 \<le> unat (snd (adc_clock_divide b f))"
    using div_succ_pos [of 65536 "unat b div unat f"] by (simp add: unat_clock_divide)
  then have "snd (adc_clock_divide b f) \<noteq> 0"
    by (auto simp flip: unat_0_iff)
  then show "unat (snd (adc_clock_divide b f) - 1) < 65535"
    using 1 by (simp add: unat_minus_one)
qed


section \<open>ADC subsystem: reprogramming the hardware\<close>

lemma update_sequence_body_parts:
  "conf (update_sequence_body s) = conf s"
  "ch (update_sequence_body s) = ch s"
  "adc_init_struct (update_sequence_body s) = adc_init_struct s"
  "dma_init_struct (update_sequence_body s) = dma_init_struct s"
  "nvic_init_structure_adc (update_sequence_body s) = nvic_init_structure_adc s"
  by (simp_all add: update_sequence_body_def Let_def)

lemma update_sequence_body_hw:
  "hw (update_sequence_body s) =
     ADC_RegularChannelConfig (seq_id (d s))
       (ch_id (ch s (ch_state (d s) ! seq_ctr (d s)))) (seq_ctr (d s) + 1)
       (GPIO_Init_analog (adc_gpio_port ! ch_id (ch s (ch_state (d s) ! seq_ctr (d s))))
          (adc_gpio_pins ! ch_id (ch s (ch_state (d s) ! seq_ctr (d s)))) (hw s))"
  by (simp add: update_sequence_body_def Let_def)

lemma update_sequence_loop_parts:
  "conf (update_sequence_loop s) = conf s \<and>
   ch (update_sequence_loop s) = ch s \<and>
   adc_init_struct (update_sequence_loop s) = adc_init_struct s \<and>
   dma_init_struct (update_sequence_loop s) = dma_init_struct s \<and>
   nvic_init_structure_adc (update_sequence_loop s) = nvic_init_structure_adc s"
proof (induction s rule: update_sequence_loop.induct)
  case (1 s)
  show ?case
  proof (cases "seq_ctr (d s) < seq_len (d s)")
    case True
    have "update_sequence_loop s = update_sequence_loop (update_sequence_body s)"
      using True by (subst update_sequence_loop.simps) simp
    with 1 [OF True] show ?thesis
      by (simp add: update_sequence_body_parts)
  next
    case False
    then have "update_sequence_loop s = s"
      by (subst update_sequence_loop.simps) simp
    then show ?thesis by simp
  qed
qed

lemma update_sequence_loop_d:
  "d (update_sequence_loop s) = (d s)\<lparr>seq_ctr := max (seq_ctr (d s)) (seq_len (d s))\<rparr>"
proof (induction s rule: update_sequence_loop.induct)
  case (1 s)
  show ?case
  proof (cases "seq_ctr (d s) < seq_len (d s)")
    case True
    have "update_sequence_loop s = update_sequence_loop (update_sequence_body s)"
      using True by (subst update_sequence_loop.simps) simp
    with 1 [OF True] True show ?thesis
      by (simp add: update_sequence_body_d max_def)
  next
    case False
    then have "update_sequence_loop s = s"
      by (subst update_sequence_loop.simps) simp
    with False show ?thesis by (simp add: max_def)
  qed
qed

lemma update_sequence_loop_hw:
  "hw (update_sequence_loop s) =
     (hw s)\<lparr>ADCx := (ADCx (hw s))
               (seq_id (d s) := (ADCx (hw s) (seq_id (d s)))
                  \<lparr>adc_sqr := adc_sqr (ADCx (hw s) (seq_id (d s))) @ scan_ranks s (seq_ctr (d s))\<rparr>),
            gpio_analog := gpio_analog (hw s) @ scan_pins s (seq_ctr (d s))\<rparr>"
proof (induction s rule: update_sequence_loop.induct)
  case (1 s)
  show ?case
  proof (cases "seq_ctr (d s) < seq_len (d s)")
    case True
    have ranks: "scan_ranks s (seq_ctr (d s)) =
        (seq_ctr (d s) + 1, ch_id (ch s (ch_state (d s) ! seq_ctr (d s))))
          # scan_ranks (update_sequence_body s) (seq_ctr (d s) + 1)"
      using True
      by (simp add: scan_ranks_def update_sequence_body_d update_sequence_body_parts
          upt_conv_Cons)
    have pins: "scan_pins s (seq_ctr (d s)) =
        (adc_gpio_port ! ch_id (ch s (ch_state (d s) ! seq_ctr (d s))),
         adc_gpio_pins ! ch_id (ch s (ch_state (d s) ! seq_ctr (d s))))
          # scan_pins (update_sequence_body s) (seq_ctr (d s) + 1)"
      using True
      by (simp add: scan_pins_def update_sequence_body_d update_sequence_body_parts
          upt_conv_Cons)
    have "update_sequence_loop s = update_sequence_loop (update_sequence_body s)"
      using True by (subst update_sequence_loop.simps) simp
    with 1 [OF True] show ?thesis
      by (simp add: update_sequence_body_d update_sequence_body_hw ranks pins
          ADC_RegularChannelConfig_def GPIO_Init_analog_def on_adc_def fun_eq_iff)
  next
    case False
    then have "update_sequence_loop s = s"
      by (subst update_sequence_loop.simps) simp
    with False show ?thesis
      by (simp add: scan_ranks_def scan_pins_def)
  qed
qed

lemma scan_of_hw [simp]:
  "scan_pins (on_hw f s) i = scan_pins s i" "scan_ranks (on_hw f s) i = scan_ranks s i"
  "scan_pins (on_d (\<lambda>x. x\<lparr>seq_ctr := n\<rparr>) s) i = scan_pins s i"
  "scan_ranks (on_d (\<lambda>x. x\<lparr>seq_ctr := n\<rparr>) s) i = scan_ranks s i"
  by (simp_all add: scan_pins_def scan_ranks_def)

lemma update_sequence_adc_parts:
  "conf (update_sequence_adc s) = conf s"
  "ch (update_sequence_adc s) = ch s"
  "nvic_init_structure_adc (update_sequence_adc s) = nvic_init_structure_adc s"
  "dma_init_struct (update_sequence_adc s) = dma_init_struct s"
  "d (update_sequence_adc s) = (d s)\<lparr>seq_ctr := 0\<rparr>"
  "adc_init_struct (update_sequence_adc s) =
     (adc_init_struct s)\<lparr>ADC_NbrOfConversion := seq_len (d s)\<rparr>"
  by (simp_all add: update_sequence_adc_def Let_def update_sequence_loop_parts
      update_sequence_loop_d)

lemma update_sequence_adc_hw:
  "hw (update_sequence_adc s) =
     (hw s)\<lparr>ADCx := (\<lambda>n. ADC_reset)
        (seq_id (d s) :=
           \<lparr>CR2 = ADC_ExternalTrigConvEdge (adc_init_struct s),
            adc_on = True, adc_dma = False, adc_dds = False,
            adc_conf = Some ((adc_init_struct s)\<lparr>ADC_NbrOfConversion := seq_len (d s)\<rparr>),
            adc_sqr = scan_ranks s 0\<rparr>),
       gpio_analog := gpio_analog (hw s) @ scan_pins s 0\<rparr>"
  by (simp add: update_sequence_adc_def Let_def update_sequence_loop_parts
      update_sequence_loop_d update_sequence_loop_hw hw_defs ADC_reset_def)

lemma update_sequence_dma_parts:
  "conf (update_sequence_dma s) = conf s"
  "ch (update_sequence_dma s) = ch s"
  "nvic_init_structure_adc (update_sequence_dma s) = nvic_init_structure_adc s"
  "adc_init_struct (update_sequence_dma s) = adc_init_struct s"
  "d (update_sequence_dma s) = d s"
  "dma_init_struct (update_sequence_dma s) =
     (dma_init_struct s)\<lparr>DMA_BufferSize := seq_len (d s),
                           DMA_Memory0BaseAddr := Address_sample_buf\<rparr>"
  by (simp_all add: update_sequence_dma_def Let_def)

lemma update_sequence_dma_hw:
  "hw (update_sequence_dma s) =
     (hw s)\<lparr>DMA2_Stream0 :=
        \<lparr>dma_on = True,
         dma_conf = Some ((dma_init_struct s)\<lparr>DMA_BufferSize := seq_len (d s),
                                              DMA_Memory0BaseAddr := Address_sample_buf\<rparr>),
         dma_it_tc = True, dma_tcif = False\<rparr>,
       ADCx := (ADCx (hw s))
         (0 := (ADCx (hw s) 0)\<lparr>adc_dds := True\<rparr>,
          seq_id (d s) :=
            (if seq_id (d s) = 0 then (ADCx (hw s) 0)\<lparr>adc_dds := True, adc_dma := True\<rparr>
             else (ADCx (hw s) (seq_id (d s)))\<lparr>adc_dma := True\<rparr>))\<rparr>"
  by (simp add: update_sequence_dma_def Let_def hw_defs fun_eq_iff)

lemma platform_adc_update_sequence_parts:
  "fst (platform_adc_update_sequence s) = PLATFORM_OK"
  "conf (snd (platform_adc_update_sequence s)) = conf s"
  "ch (snd (platform_adc_update_sequence s)) = ch s"
  "nvic_init_structure_adc (snd (platform_adc_update_sequence s)) = nvic_init_structure_adc s"
  "d (snd (platform_adc_update_sequence s)) = (d s)\<lparr>seq_ctr := 0\<rparr>"
  "adc_init_struct (snd (platform_adc_update_sequence s)) =
     (adc_init_struct s)\<lparr>ADC_NbrOfConversion := seq_len (d s)\<rparr>"
  "dma_init_struct (snd (platform_adc_update_sequence s)) =
     (dma_init_struct s)\<lparr>DMA_BufferSize := seq_len (d s),
                           DMA_Memory0BaseAddr := Address_sample_buf\<rparr>"
  by (simp_all add: platform_adc_update_sequence_def Let_def update_sequence_adc_parts
      update_sequence_dma_parts)

lemma platform_adc_update_sequence_dma:
  "DMA2_Stream0 (hw (snd (platform_adc_update_sequence s))) =
     \<lparr>dma_on = True,
      dma_conf = Some ((dma_init_struct s)\<lparr>DMA_BufferSize := seq_len (d s),
                                           DMA_Memory0BaseAddr := Address_sample_buf\<rparr>),
      dma_it_tc = True, dma_tcif = False\<rparr>"
  by (simp add: platform_adc_update_sequence_def Let_def update_sequence_adc_parts
      update_sequence_dma_parts update_sequence_dma_hw ADC_TRIG_CFG_def
      ADC_ExternalTrigConvCmd_def on_adc_def)

lemma platform_adc_update_sequence_hw_rest:
  "NVIC_DMA2_Stream0_IRQ (hw (snd (platform_adc_update_sequence s))) =
     NVIC_DMA2_Stream0_IRQ (hw s)"
  "TIMx (hw (snd (platform_adc_update_sequence s))) = TIMx (hw s)"
  "gpio_analog (hw (snd (platform_adc_update_sequence s))) = gpio_analog (hw s) @ scan_pins s 0"
  by (simp_all add: platform_adc_update_sequence_def Let_def update_sequence_adc_parts
      update_sequence_dma_parts update_sequence_dma_hw update_sequence_adc_hw ADC_TRIG_CFG_def
      ADC_ExternalTrigConvCmd_def on_adc_def)

lemma platform_adc_update_sequence_adc:
  "ADCx (hw (snd (platform_adc_update_sequence s))) (seq_id (d s)) =
     \<lparr>CR2 = (if clocked (d s) \<and> running (d s)
             then (ADC_ExternalTrigConvEdge (adc_init_struct s) AND CR2_EXTEN_RESET)
                    OR ADC_ExternalTrigConvEdge_Rising
             else ADC_ExternalTrigConvEdge (adc_init_struct s)),
      adc_on = True, adc_dma = True, adc_dds = (seq_id (d s) = 0),
      adc_conf = Some ((adc_init_struct s)\<lparr>ADC_NbrOfConversion := seq_len (d s)\<rparr>),
      adc_sqr = scan_ranks s 0\<rparr>"
  by (simp add: platform_adc_update_sequence_def Let_def update_sequence_adc_parts
      update_sequence_dma_parts update_sequence_dma_hw update_sequence_adc_hw ADC_TRIG_CFG_def
      ADC_ExternalTrigConvCmd_def on_adc_def ADC_reset_def)


section \<open>ADC subsystem: what platform_adc_update_sequence programs\<close>

text \<open>
  Claim C7. Every run of \<^verbatim>\<open>platform_adc_update_sequence\<close> programs the DMA stream
  with the global init structure after setting its buffer length to the length of the
  scan list and its memory target to the sample buffer; the mode and the direction
  are those \<^verbatim>\<open>adcs_init\<close> stored in the structure (circular, peripheral to memory:
  \<open>adcs_init_result\<close>), which this function does not change. The stream is
  de-initialised before it is programmed and enabled, so a completion flag pending
  before the run is clear after it.
\<close>

theorem platform_adc_update_sequence_dma_reconfigured:
  assumes "DMA_Mode (dma_init_struct s) = DMA_Mode_Circular"
    and "DMA_DIR (dma_init_struct s) = DMA_DIR_PeripheralToMemory"
  shows
    "dma_conf (DMA2_Stream0 (hw (snd (platform_adc_update_sequence s)))) =
       Some (dma_init_struct (snd (platform_adc_update_sequence s))) \<and>
     DMA_BufferSize (dma_init_struct (snd (platform_adc_update_sequence s))) =
       seq_len (d (snd (platform_adc_update_sequence s))) \<and>
     seq_len (d (snd (platform_adc_update_sequence s))) = seq_len (d s) \<and>
     DMA_Memory0BaseAddr (dma_init_struct (snd (platform_adc_update_sequence s))) =
       Address_sample_buf \<and>
     DMA_Mode (dma_init_struct (snd (platform_adc_update_sequence s))) = DMA_Mode_Circular \<and>
     DMA_DIR (dma_init_struct (snd (platform_adc_update_sequence s))) =
       DMA_DIR_PeripheralToMemory \<and>
     \<not> dma_tcif (DMA2_Stream0 (hw (snd (platform_adc_update_sequence s)))) \<and>
     dma_on (DMA2_Stream0 (hw (snd (platform_adc_update_sequence s)))) \<and>
     dma_it_tc (DMA2_Stream0 (hw (snd (platform_adc_update_sequence s))))"
  using assms
  by (simp add: platform_adc_update_sequence_parts platform_adc_update_sequence_dma)

theorem platform_adc_update_sequence_dma_reconfigured_witness:
  "DMA_Mode (dma_init_struct (on_hw (on_dma (\<lambda>m. m\<lparr>dma_tcif := True\<rparr>)) demo_init)) =
     DMA_Mode_Circular \<and>
   DMA_DIR (dma_init_struct (on_hw (on_dma (\<lambda>m. m\<lparr>dma_tcif := True\<rparr>)) demo_init)) =
     DMA_DIR_PeripheralToMemory \<and>
   dma_tcif (DMA2_Stream0 (hw (on_hw (on_dma (\<lambda>m. m\<lparr>dma_tcif := True\<rparr>)) demo_init))) \<and>
   \<not> dma_tcif (DMA2_Stream0 (hw (snd (platform_adc_update_sequence
       (on_hw (on_dma (\<lambda>m. m\<lparr>dma_tcif := True\<rparr>)) demo_init))))) \<and>
   DMA_Mode (dma_init_struct (snd (platform_adc_update_sequence
       (on_hw (on_dma (\<lambda>m. m\<lparr>dma_tcif := True\<rparr>)) demo_init)))) = DMA_Mode_Circular"
  using platform_adc_update_sequence_dma_reconfigured
    [of "on_hw (on_dma (\<lambda>m. m\<lparr>dma_tcif := True\<rparr>)) demo_init"]
  by (simp add: demo_init_fields on_dma_def)

text \<open>
  Claim C6, as amended. With a scan list of length 0 the loop of
  \<^verbatim>\<open>platform_adc_update_sequence\<close> configures no pin and no scan position, but the
  converter is programmed with a conversion count of 0 and the DMA stream with a
  buffer length of 0, and both are enabled again, with the DMA request and the
  completion interrupt of the stream. The trigger is enabled again if the device is
  clocked and running; it is left disabled if not and the trigger edge of the init
  structure is none (the software-triggered mode).
\<close>

theorem platform_adc_update_sequence_empty:
  assumes "seq_len (d s) = 0"
  shows
    "gpio_analog (hw (snd (platform_adc_update_sequence s))) = gpio_analog (hw s) \<and>
     adc_sqr (ADCx (hw (snd (platform_adc_update_sequence s))) (seq_id (d s))) = [] \<and>
     adc_conf (ADCx (hw (snd (platform_adc_update_sequence s))) (seq_id (d s))) =
       Some ((adc_init_struct s)\<lparr>ADC_NbrOfConversion := 0\<rparr>) \<and>
     adc_on (ADCx (hw (snd (platform_adc_update_sequence s))) (seq_id (d s))) \<and>
     adc_dma (ADCx (hw (snd (platform_adc_update_sequence s))) (seq_id (d s))) \<and>
     dma_conf (DMA2_Stream0 (hw (snd (platform_adc_update_sequence s)))) =
       Some ((dma_init_struct s)\<lparr>DMA_BufferSize := 0,
                                    DMA_Memory0BaseAddr := Address_sample_buf\<rparr>) \<and>
     dma_on (DMA2_Stream0 (hw (snd (platform_adc_update_sequence s)))) \<and>
     dma_it_tc (DMA2_Stream0 (hw (snd (platform_adc_update_sequence s)))) \<and>
     (clocked (d s) \<and> running (d s) \<longrightarrow>
        trigger_enabled (seq_id (d s)) (hw (snd (platform_adc_update_sequence s)))) \<and>
     (\<not> (clocked (d s) \<and> running (d s)) \<and>
      ADC_ExternalTrigConvEdge (adc_init_struct s) = ADC_ExternalTrigConvEdge_None \<longrightarrow>
        \<not> trigger_enabled (seq_id (d s)) (hw (snd (platform_adc_update_sequence s))))"
  using assms
  by (simp add: platform_adc_update_sequence_adc platform_adc_update_sequence_dma
      platform_adc_update_sequence_hw_rest scan_pins_def scan_ranks_def trigger_enabled_def
      ADC_ExternalTrigConvEdge_None_def)

theorem platform_adc_update_sequence_empty_witness:
  "seq_len (d demo_init) = 0 \<and>
   \<not> (clocked (d demo_init) \<and> running (d demo_init)) \<and>
   ADC_ExternalTrigConvEdge (adc_init_struct demo_init) = ADC_ExternalTrigConvEdge_None \<and>
   \<not> trigger_enabled (seq_id (d demo_init)) (hw (snd (platform_adc_update_sequence demo_init))) \<and>
   adc_sqr (ADCx (hw (snd (platform_adc_update_sequence demo_init))) (seq_id (d demo_init))) = [] \<and>
   clocked (d (on_d (\<lambda>x. x\<lparr>clocked := True, running := True\<rparr>) demo_init)) \<and>
   running (d (on_d (\<lambda>x. x\<lparr>clocked := True, running := True\<rparr>) demo_init)) \<and>
   seq_len (d (on_d (\<lambda>x. x\<lparr>clocked := True, running := True\<rparr>) demo_init)) = 0 \<and>
   trigger_enabled (seq_id (d demo_init))
     (hw (snd (platform_adc_update_sequence
        (on_d (\<lambda>x. x\<lparr>clocked := True, running := True\<rparr>) demo_init))))"
  using platform_adc_update_sequence_empty [of demo_init]
    platform_adc_update_sequence_empty
      [of "on_d (\<lambda>x. x\<lparr>clocked := True, running := True\<rparr>) demo_init"]
  by (simp add: demo_init_fields demo_init_d boot_def)

text \<open>
  Claim C6 as stated fails: after initialisation, with no active channel and an
  empty scan list, the function leaves the converter and the DMA stream enabled and
  programmed with a length of 0.
\<close>

theorem platform_adc_update_sequence_empty_programs:
  "seq_len (d demo_init) = 0 \<and> ch_active (d demo_init) = 0 \<and>
   adc_on (ADCx (hw (snd (platform_adc_update_sequence demo_init))) (seq_id (d demo_init))) \<and>
   dma_on (DMA2_Stream0 (hw (snd (platform_adc_update_sequence demo_init)))) \<and>
   map_option DMA_BufferSize
     (dma_conf (DMA2_Stream0 (hw (snd (platform_adc_update_sequence demo_init))))) = Some 0 \<and>
   map_option ADC_NbrOfConversion
     (adc_conf (ADCx (hw (snd (platform_adc_update_sequence demo_init))) (seq_id (d demo_init))))
     = Some 0"
  using platform_adc_update_sequence_adc [of demo_init]
  by (simp add: platform_adc_update_sequence_dma demo_init_d boot_def)


section \<open>ADC subsystem: the loop of the completion handler\<close>

lemma irq_sample_frame:
  "conf (irq_sample p s) = conf s"
  "d (irq_sample p s) = d s"
  "hw (irq_sample p s) = hw s"
  "adc_init_struct (irq_sample p s) = adc_init_struct s"
  "dma_init_struct (irq_sample p s) = dma_init_struct s"
  "nvic_init_structure_adc (irq_sample p s) = nvic_init_structure_adc s"
  by (simp_all add: irq_sample_def Let_def adc_smooth_data_def buf_write_def)

lemma irq_sample_static:
  "ch_id (ch (irq_sample p s) c) = ch_id (ch s c)"
  "reqsamples (ch (irq_sample p s) c) = reqsamples (ch s c)"
  "freerunning (ch (irq_sample p s) c) = freerunning (ch s c)"
  "logsmoothlen (ch (irq_sample p s) c) = logsmoothlen (ch s c)"
  "value_ptr (ch (irq_sample p s) c) = value_ptr (ch s c)"
  "samples_delivered (ch (irq_sample p s) c) = samples_delivered (ch s c)"
  "op_pending (ch (irq_sample p s) c) = op_pending (ch s c)"
  by (simp_all add: irq_sample_def Let_def adc_smooth_data_def buf_write_def)

lemma irq_sample_other:
  "ch_id (ch s p) = p \<Longrightarrow> c \<noteq> p \<Longrightarrow> ch (irq_sample p s) c = ch s c"
  by (simp add: irq_sample_def Let_def adc_smooth_data_def buf_write_def)

lemma irq_sample_self:
  assumes "ch_id (ch s p) = p"
  shows "value_fresh (ch (irq_sample p s) p) = (\<not> irq_queues s p)"
    and "sink (ch (irq_sample p s) p) =
           (if irq_queues s p
            then snd (rbuff_push (sink (ch s p)) (sample_buf (d s) ! value_ptr (ch s p)))
            else sink (ch s p))"
    and "smooth_ready (ch (irq_sample p s) p) =
           (if irq_smooths s p then 2 ^ logsmoothlen (ch s p) \<le> smoothidx (ch s p) + 1
            else smooth_ready (ch s p))"
  using assms
  by (auto simp add: irq_sample_def Let_def adc_smooth_data_def buf_write_def
      irq_queues_def irq_smooths_def)

lemma irq_check_frame:
  "conf (irq_check p s) = conf s"
  "adc_init_struct (irq_check p s) = adc_init_struct s"
  "dma_init_struct (irq_check p s) = dma_init_struct s"
  by (simp_all add: irq_check_def Let_def adc_samples_available_def platform_adc_stop_structs)

lemma irq_check_static:
  "ch_id (ch (irq_check p s) c) = ch_id (ch s c)"
  "reqsamples (ch (irq_check p s) c) = reqsamples (ch s c)"
  "freerunning (ch (irq_check p s) c) = freerunning (ch s c)"
  "logsmoothlen (ch (irq_check p s) c) = logsmoothlen (ch s c)"
  "value_ptr (ch (irq_check p s) c) = value_ptr (ch s c)"
  "value_fresh (ch (irq_check p s) c) = value_fresh (ch s c)"
  "sink (ch (irq_check p s) c) = sink (ch s c)"
  "smooth_ready (ch (irq_check p s) c) = smooth_ready (ch s c)"
  by (simp_all add: irq_check_def Let_def adc_samples_available_def platform_adc_stop_ch)

lemma irq_check_other:
  "ch_id (ch s p) = p \<Longrightarrow> c \<noteq> p \<Longrightarrow> ch (irq_check p s) c = ch s c"
  by (simp add: irq_check_def Let_def adc_samples_available_def platform_adc_stop_ch)

lemma irq_check_self:
  assumes "ch_id (ch s p) = p"
  shows "samples_delivered (ch (irq_check p s) p) = samples_delivered (ch s p) + 1"
    and "op_pending (ch (irq_check p s) p) = (op_pending (ch s p) \<and> \<not> irq_stops s p)"
  using assms
  by (auto simp add: irq_check_def Let_def adc_samples_available_def platform_adc_stop_ch
      irq_stops_def)

lemma irq_check_dev:
  assumes "ch_id (ch s p) = p"
  shows "d (irq_check p s) = (if irq_stops s p then d (platform_adc_stop p s) else d s)"
    and "hw (irq_check p s) = (if irq_stops s p then hw (platform_adc_stop p s) else hw s)"
    and "nvic_init_structure_adc (irq_check p s) =
           (if irq_stops s p then nvic_init_structure_adc (platform_adc_stop p s)
            else nvic_init_structure_adc s)"
  using assms
  by (simp_all add: irq_check_def Let_def adc_samples_available_def platform_adc_stop_d
      platform_adc_stop_hw platform_adc_stop_structs irq_stops_def)

lemma irq_stops_sample [simp]: "irq_stops (irq_sample p s) c = irq_stops s c"
  by (simp add: irq_stops_def irq_sample_static)

lemma stop_of_sample:
  "d (platform_adc_stop p (irq_sample q s)) = d (platform_adc_stop p s)"
  "hw (platform_adc_stop p (irq_sample q s)) = hw (platform_adc_stop p s)"
  "nvic_init_structure_adc (platform_adc_stop p (irq_sample q s)) =
     nvic_init_structure_adc (platform_adc_stop p s)"
  by (simp_all add: platform_adc_stop_d platform_adc_stop_hw platform_adc_stop_structs
      irq_sample_frame)

text \<open>The loop body as a whole, for a scan position whose pointer is well formed.\<close>

lemma irq_body_frame:
  "conf (irq_body s) = conf s"
  "adc_init_struct (irq_body s) = adc_init_struct s"
  "dma_init_struct (irq_body s) = dma_init_struct s"
  by (simp_all add: irq_body_def Let_def irq_check_frame irq_sample_frame)

lemma irq_body_static:
  "ch_id (ch (irq_body s) c) = ch_id (ch s c)"
  "reqsamples (ch (irq_body s) c) = reqsamples (ch s c)"
  "freerunning (ch (irq_body s) c) = freerunning (ch s c)"
  "logsmoothlen (ch (irq_body s) c) = logsmoothlen (ch s c)"
  "value_ptr (ch (irq_body s) c) = value_ptr (ch s c)"
  by (simp_all add: irq_body_def Let_def irq_check_static irq_sample_static)

lemma irq_body_dev:
  assumes "ch_id (ch s (ch_state (d s) ! seq_ctr (d s))) = ch_state (d s) ! seq_ctr (d s)"
  shows "d (irq_body s) =
     (if irq_stops s (ch_state (d s) ! seq_ctr (d s))
      then d (platform_adc_stop (ch_state (d s) ! seq_ctr (d s)) s) else d s)
       \<lparr>seq_ctr := seq_ctr (d s) + 1\<rparr>"
    and "hw (irq_body s) =
     (if irq_stops s (ch_state (d s) ! seq_ctr (d s))
      then hw (platform_adc_stop (ch_state (d s) ! seq_ctr (d s)) s) else hw s)"
    and "nvic_init_structure_adc (irq_body s) =
     (if irq_stops s (ch_state (d s) ! seq_ctr (d s))
      then nvic_init_structure_adc (platform_adc_stop (ch_state (d s) ! seq_ctr (d s)) s)
      else nvic_init_structure_adc s)"
  using assms
  by (simp_all add: irq_body_def Let_def irq_check_dev irq_sample_static irq_sample_frame
      stop_of_sample platform_adc_stop_seq)

lemma irq_body_ch_other:
  assumes "ch_id (ch s (ch_state (d s) ! seq_ctr (d s))) = ch_state (d s) ! seq_ctr (d s)"
    and "c \<noteq> ch_state (d s) ! seq_ctr (d s)"
  shows "ch (irq_body s) c = ch s c"
  using assms
  by (simp add: irq_body_def Let_def irq_check_other irq_sample_other irq_sample_static)

lemma irq_body_ch_self:
  assumes "ch_id (ch s p) = p" and "p = ch_state (d s) ! seq_ctr (d s)"
  shows "samples_delivered (ch (irq_body s) p) = samples_delivered (ch s p) + 1"
    and "op_pending (ch (irq_body s) p) = (op_pending (ch s p) \<and> \<not> irq_stops s p)"
    and "value_fresh (ch (irq_body s) p) = (\<not> irq_queues s p)"
    and "sink (ch (irq_body s) p) =
           (if irq_queues s p
            then snd (rbuff_push (sink (ch s p)) (sample_buf (d s) ! value_ptr (ch s p)))
            else sink (ch s p))"
  using assms
  by (simp_all add: irq_body_def Let_def irq_check_self irq_check_static irq_sample_self
      irq_sample_static)

text \<open>Without any assumption on the pointer: a pass of the body stops at most one
  channel.\<close>

lemma irq_check_cases:
  "(d (irq_check p s) = d s \<and> hw (irq_check p s) = hw s \<and>
    nvic_init_structure_adc (irq_check p s) = nvic_init_structure_adc s) \<or>
   (d (irq_check p s) = d (platform_adc_stop (ch_id (ch s p)) s) \<and>
    hw (irq_check p s) = hw (platform_adc_stop (ch_id (ch s p)) s) \<and>
    nvic_init_structure_adc (irq_check p s) =
      nvic_init_structure_adc (platform_adc_stop (ch_id (ch s p)) s))"
  by (simp add: irq_check_def Let_def adc_samples_available_def platform_adc_stop_d
      platform_adc_stop_hw platform_adc_stop_structs)

lemma irq_body_cases:
  "(d (irq_body s) = (d s)\<lparr>seq_ctr := seq_ctr (d s) + 1\<rparr> \<and> hw (irq_body s) = hw s \<and>
    nvic_init_structure_adc (irq_body s) = nvic_init_structure_adc s) \<or>
   (\<exists>c. d (irq_body s) = (d (platform_adc_stop c s))\<lparr>seq_ctr := seq_ctr (d s) + 1\<rparr> \<and>
        hw (irq_body s) = hw (platform_adc_stop c s) \<and>
        nvic_init_structure_adc (irq_body s) = nvic_init_structure_adc (platform_adc_stop c s))"
proof -
  let ?p = "ch_state (d s) ! seq_ctr (d s)"
  let ?s2 = "irq_sample ?p s"
  from irq_check_cases [of ?p ?s2] show ?thesis
  proof
    assume "d (irq_check ?p ?s2) = d ?s2 \<and> hw (irq_check ?p ?s2) = hw ?s2 \<and>
      nvic_init_structure_adc (irq_check ?p ?s2) = nvic_init_structure_adc ?s2"
    then show ?thesis
      by (simp add: irq_body_def Let_def irq_sample_frame)
  next
    assume a: "d (irq_check ?p ?s2) = d (platform_adc_stop (ch_id (ch ?s2 ?p)) ?s2) \<and>
      hw (irq_check ?p ?s2) = hw (platform_adc_stop (ch_id (ch ?s2 ?p)) ?s2) \<and>
      nvic_init_structure_adc (irq_check ?p ?s2) =
        nvic_init_structure_adc (platform_adc_stop (ch_id (ch ?s2 ?p)) ?s2)"
    have "\<exists>c. d (irq_body s) = (d (platform_adc_stop c s))\<lparr>seq_ctr := seq_ctr (d s) + 1\<rparr> \<and>
        hw (irq_body s) = hw (platform_adc_stop c s) \<and>
        nvic_init_structure_adc (irq_body s) = nvic_init_structure_adc (platform_adc_stop c s)"
      by (rule exI [of _ "ch_id (ch ?s2 ?p)"])
        (use a in \<open>simp add: irq_body_def Let_def stop_of_sample platform_adc_stop_seq\<close>)
    then show ?thesis ..
  qed
qed

lemma irq_loop_rule:
  assumes "P s" and "\<And>t. P t \<Longrightarrow> seq_ctr (d t) < seq_len (d t) \<Longrightarrow> P (irq_body t)"
  shows "P (irq_loop s)"
  using assms(1)
proof (induction s rule: irq_loop.induct)
  case (1 s)
  show ?case
  proof (cases "seq_ctr (d s) < seq_len (d s)")
    case True
    then have "irq_loop s = irq_loop (irq_body s)"
      by (subst irq_loop.simps) simp
    moreover have "P (irq_body s)"
      using "1.prems" True by (rule assms(2))
    ultimately show ?thesis
      using "1.IH" [OF True] by simp
  next
    case False
    then have "irq_loop s = s"
      by (subst irq_loop.simps) simp
    with "1.prems" show ?thesis by simp
  qed
qed

lemma irq_body_d_static:
  "ch_state (d (irq_body s)) = ch_state (d s)"
  "sample_buf (d (irq_body s)) = sample_buf (d s)"
  "clocked (d (irq_body s)) = clocked (d s)"
  "timer_id (d (irq_body s)) = timer_id (d s)"
  "seq_id (d (irq_body s)) = seq_id (d s)"
  "seq_len (d (irq_body s)) = seq_len (d s)"
  using irq_body_cases [of s] by (auto simp: platform_adc_stop_d)

lemma irq_loop_frame:
  "conf (irq_loop s) = conf s \<and>
   adc_init_struct (irq_loop s) = adc_init_struct s \<and>
   dma_init_struct (irq_loop s) = dma_init_struct s \<and>
   ch_state (d (irq_loop s)) = ch_state (d s) \<and>
   sample_buf (d (irq_loop s)) = sample_buf (d s) \<and>
   clocked (d (irq_loop s)) = clocked (d s) \<and>
   timer_id (d (irq_loop s)) = timer_id (d s) \<and>
   seq_id (d (irq_loop s)) = seq_id (d s) \<and>
   seq_len (d (irq_loop s)) = seq_len (d s)"
  by (rule irq_loop_rule) (simp_all add: irq_body_frame irq_body_d_static)

lemma irq_loop_static:
  "ch_id (ch (irq_loop s) c) = ch_id (ch s c) \<and>
   reqsamples (ch (irq_loop s) c) = reqsamples (ch s c) \<and>
   freerunning (ch (irq_loop s) c) = freerunning (ch s c) \<and>
   logsmoothlen (ch (irq_loop s) c) = logsmoothlen (ch s c) \<and>
   value_ptr (ch (irq_loop s) c) = value_ptr (ch s c)"
  by (rule irq_loop_rule) (simp_all add: irq_body_static)

lemma irq_loop_seq_ctr:
  "seq_ctr (d (irq_loop s)) = max (seq_ctr (d s)) (seq_len (d s))"
proof (induction s rule: irq_loop.induct)
  case (1 s)
  show ?case
  proof (cases "seq_ctr (d s) < seq_len (d s)")
    case True
    then have "irq_loop s = irq_loop (irq_body s)"
      by (subst irq_loop.simps) simp
    with 1 [OF True] True show ?thesis
      by (simp add: irq_body_seq max_def)
  next
    case False
    then have "irq_loop s = s"
      by (subst irq_loop.simps) simp
    with False show ?thesis by (simp add: max_def)
  qed
qed


lemma irq_sample_ch:
  assumes "ch_id (ch s p) = p"
  shows "ch (irq_sample p s) =
    (ch s)(p :=
      (let x1 = (ch s p)\<lparr>value_fresh := True\<rparr>
       in if 0 < logsmoothlen x1 \<and> \<not> smooth_ready x1
          then x1\<lparr>smoothidx := smoothidx x1 + 1,
                  smoothsum := smoothsum x1 + ucast (sample_buf (d s) ! value_ptr x1),
                  smooth_ready := (2 ^ logsmoothlen x1 \<le> smoothidx x1 + 1)\<rparr>
          else if BUF_ENABLE_ADC (conf s) \<and> 1 < reqsamples x1
          then x1\<lparr>sink := snd (rbuff_push (sink x1) (sample_buf (d s) ! value_ptr x1)),
                  value_fresh := False\<rparr>
          else x1))"
  using assms
  by (simp add: irq_sample_def Let_def adc_smooth_data_def buf_write_def)

lemma irq_check_ch:
  assumes "ch_id (ch s p) = p"
  shows "ch (irq_check p s) =
    (ch s)(p :=
      (let x3 = (ch s p)\<lparr>samples_delivered := samples_delivered (ch s p) + 1\<rparr>
       in if reqsamples x3 \<le> samples_delivered x3 \<and> \<not> freerunning x3
          then x3\<lparr>op_pending := False\<rparr> else x3))"
  using assms
  by (simp add: irq_check_def Let_def adc_samples_available_def platform_adc_stop_ch)

lemma irq_body_ch:
  assumes "ch_id (ch s (ch_state (d s) ! seq_ctr (d s))) = ch_state (d s) ! seq_ctr (d s)"
  shows "ch (irq_body s) =
    (ch s)(ch_state (d s) ! seq_ctr (d s) :=
       channel_step (BUF_ENABLE_ADC (conf s)) (sample_buf (d s))
         (ch s (ch_state (d s) ! seq_ctr (d s))))"
proof -
  let ?p = "ch_state (d s) ! seq_ctr (d s)"
  have "ch_id (ch (irq_sample ?p s) ?p) = ?p"
    using assms by (simp add: irq_sample_static)
  then show ?thesis
    using assms
    by (simp add: irq_body_def irq_check_ch irq_sample_ch [OF assms] channel_step_def Let_def)
qed

lemma scan_wf_irq_body: "scan_wf s \<Longrightarrow> scan_wf (irq_body s)"
  by (simp add: scan_wf_def irq_body_d_static irq_body_static)

lemma irq_loop_ch:
  assumes "scan_wf s"
  shows "ch (irq_loop s) c =
     (if c \<in> set (drop (seq_ctr (d s)) (ch_state (d s)))
      then channel_step (BUF_ENABLE_ADC (conf s)) (sample_buf (d s)) (ch s c)
      else ch s c)"
  using assms
proof (induction s rule: irq_loop.induct)
  case (1 s)
  let ?L = "ch_state (d s)"
  let ?i = "seq_ctr (d s)"
  show ?case
  proof (cases "?i < seq_len (d s)")
    case True
    then have i: "?i < length ?L"
      using "1.prems" by (simp add: scan_wf_def)
    have loop: "irq_loop s = irq_loop (irq_body s)"
      using True by (subst irq_loop.simps) simp
    have wf': "scan_wf (irq_body s)"
      using "1.prems" by (rule scan_wf_irq_body)
    have id: "ch_id (ch s (?L ! ?i)) = ?L ! ?i"
      using "1.prems" i by (simp add: scan_wf_def)
    have dr: "drop ?i ?L = ?L ! ?i # drop (?i + 1) ?L"
      using i by (simp add: Cons_nth_drop_Suc)
    have notin: "?L ! ?i \<notin> set (drop (?i + 1) ?L)"
    proof -
      have "distinct (drop ?i ?L)" using "1.prems" by (simp add: scan_wf_def)
      then show ?thesis by (simp add: dr)
    qed
    note IH = "1.IH" [OF True wf']
    show ?thesis
    proof (cases "c = ?L ! ?i")
      case True
      then show ?thesis
        using IH notin
        by (simp add: loop irq_body_seq irq_body_d_static irq_body_ch [OF id] dr)
    next
      case False
      then show ?thesis
        using IH
        by (simp add: loop irq_body_seq irq_body_d_static irq_body_ch [OF id] dr
            irq_body_frame)
    qed
  next
    case False
    then have "irq_loop s = s"
      by (subst irq_loop.simps) simp
    moreover have "drop ?i ?L = []"
      using False "1.prems" by (simp add: scan_wf_def)
    ultimately show ?thesis by simp
  qed
qed

lemma irq_stops_cong: "ch t c = ch s c \<Longrightarrow> irq_stops t c = irq_stops s c"
  by (simp add: irq_stops_def)

lemma irq_loop_active:
  assumes "scan_wf s"
  shows "bit (ch_active (d (irq_loop s))) c \<longleftrightarrow>
     bit (ch_active (d s)) c \<and>
     \<not> (c \<in> set (drop (seq_ctr (d s)) (ch_state (d s))) \<and> irq_stops s c)"
  using assms
proof (induction s rule: irq_loop.induct)
  case (1 s)
  let ?L = "ch_state (d s)"
  let ?i = "seq_ctr (d s)"
  show ?case
  proof (cases "?i < seq_len (d s)")
    case True
    then have i: "?i < length ?L"
      using "1.prems" by (simp add: scan_wf_def)
    have loop: "irq_loop s = irq_loop (irq_body s)"
      using True by (subst irq_loop.simps) simp
    have wf': "scan_wf (irq_body s)"
      using "1.prems" by (rule scan_wf_irq_body)
    have id: "ch_id (ch s (?L ! ?i)) = ?L ! ?i"
      using "1.prems" i by (simp add: scan_wf_def)
    have dr: "drop ?i ?L = ?L ! ?i # drop (?i + 1) ?L"
      using i by (simp add: Cons_nth_drop_Suc)
    have notin: "?L ! ?i \<notin> set (drop (?i + 1) ?L)"
    proof -
      have "distinct (drop ?i ?L)" using "1.prems" by (simp add: scan_wf_def)
      then show ?thesis by (simp add: dr)
    qed
    have later: "c \<in> set (drop (?i + 1) ?L) \<Longrightarrow> irq_stops (irq_body s) c = irq_stops s c"
      using notin by (intro irq_stops_cong irq_body_ch_other [OF id]) auto
    note IH = "1.IH" [OF True wf']
    show ?thesis
      using IH notin later
      by (auto simp add: loop irq_body_seq irq_body_d_static irq_body_dev(1) [OF id] dr
          platform_adc_stop_d mask_clear_bit)
  next
    case False
    then have "irq_loop s = s"
      by (subst irq_loop.simps) simp
    moreover have "drop ?i ?L = []"
      using False "1.prems" by (simp add: scan_wf_def)
    ultimately show ?thesis by simp
  qed
qed

lemma sequencer_off_idem [simp]: "sequencer_off n (sequencer_off n h) = sequencer_off n h"
  by (simp add: sequencer_off_def hw_defs ADC_ExternalTrigConvEdge_None_def word_bw_assocs)

lemma sequencer_off_facts [simp]:
  "\<not> NVIC_DMA2_Stream0_IRQ (sequencer_off n h)"
  "\<not> trigger_enabled n (sequencer_off n h)"
  "DMA2_Stream0 (sequencer_off n h) = DMA2_Stream0 h"
  by (simp_all add: sequencer_off_def hw_defs trigger_enabled_def)

lemma platform_adc_stop_hw_off:
  "hw (platform_adc_stop c s) =
     (if ch_active (d s) AND NOT (2 ^ c) = 0 then sequencer_off (seq_id (d s)) (hw s) else hw s)"
  by (simp add: platform_adc_stop_hw sequencer_off_def)

lemma loop_dev_step:
  assumes "loop_dev s t"
  shows "loop_dev s (irq_body t)"
proof -
  from irq_body_cases [of t] show ?thesis
  proof (elim disjE exE conjE)
    assume "d (irq_body t) = (d t)\<lparr>seq_ctr := seq_ctr (d t) + 1\<rparr>"
      "hw (irq_body t) = hw t"
      "nvic_init_structure_adc (irq_body t) = nvic_init_structure_adc t"
    with assms show ?thesis
      by (simp add: loop_dev_def)
  next
    fix c
    assume "d (irq_body t) = (d (platform_adc_stop c t))\<lparr>seq_ctr := seq_ctr (d t) + 1\<rparr>"
      "hw (irq_body t) = hw (platform_adc_stop c t)"
      "nvic_init_structure_adc (irq_body t) = nvic_init_structure_adc (platform_adc_stop c t)"
    with assms show ?thesis
      by (auto simp add: loop_dev_def platform_adc_stop_d platform_adc_stop_hw_off
          platform_adc_stop_structs)
  qed
qed

lemma irq_loop_dev: "loop_dev s (irq_loop s)"
  by (rule irq_loop_rule) (simp_all add: loop_dev_def loop_dev_step [unfolded loop_dev_def])

lemma set_value_ptrs_frame:
  "conf (set_value_ptrs cs i s) = conf s \<and> d (set_value_ptrs cs i s) = d s \<and>
   hw (set_value_ptrs cs i s) = hw s \<and>
   adc_init_struct (set_value_ptrs cs i s) = adc_init_struct s \<and>
   dma_init_struct (set_value_ptrs cs i s) = dma_init_struct s \<and>
   nvic_init_structure_adc (set_value_ptrs cs i s) = nvic_init_structure_adc s"
  by (induction cs arbitrary: i s) simp_all

lemma set_value_ptrs_ch:
  "\<exists>v. ch (set_value_ptrs cs i s) c = (ch s c)\<lparr>value_ptr := v\<rparr>"
proof (induction cs arbitrary: i s)
  case Nil
  have "ch s c = (ch s c)\<lparr>value_ptr := value_ptr (ch s c)\<rparr>" by simp
  then show ?case by (simp only: set_value_ptrs.simps) (rule exI)
next
  case (Cons a cs)
  obtain v where "ch (set_value_ptrs cs (i + 1) (on_ch a (\<lambda>x. x\<lparr>value_ptr := i\<rparr>) s)) c =
      (ch (on_ch a (\<lambda>x. x\<lparr>value_ptr := i\<rparr>) s) c)\<lparr>value_ptr := v\<rparr>"
    using Cons.IH by blast
  then have "ch (set_value_ptrs (a # cs) i s) c = (ch s c)\<lparr>value_ptr := v\<rparr>"
    by simp
  then show ?case ..
qed

lemma set_value_ptrs_other: "c \<notin> set cs \<Longrightarrow> ch (set_value_ptrs cs i s) c = ch s c"
  by (induction cs arbitrary: i s) simp_all

lemma set_value_ptrs_nth:
  "distinct cs \<Longrightarrow> j < length cs \<Longrightarrow> value_ptr (ch (set_value_ptrs cs i s) (cs ! j)) = i + j"
proof (induction cs arbitrary: i j s)
  case Nil
  then show ?case by simp
next
  case (Cons a cs)
  show ?case
  proof (cases j)
    case 0
    then show ?thesis
      using Cons.prems by (simp add: set_value_ptrs_other)
  next
    case (Suc k)
    then show ?thesis
      using Cons.prems Cons.IH [of k "i + 1"] by simp
  qed
qed

lemma active_channels_set:
  "set (active_channels s) = {c. c < NUM_ADC \<and> CHANNEL_ACTIVE c s}"
  "distinct (active_channels s)"
  by (auto simp add: active_channels_def)

lemma adc_update_dev_sequence_d:
  "d (adc_update_dev_sequence s) =
     (d s)\<lparr>ch_state := active_channels s, seq_len := length (active_channels s),
           seq_ctr := 0\<rparr>"
  by (simp add: adc_update_dev_sequence_def Let_def platform_adc_update_sequence_parts
      set_value_ptrs_frame)

lemma adc_update_dev_sequence_frame:
  "conf (adc_update_dev_sequence s) = conf s"
  "nvic_init_structure_adc (adc_update_dev_sequence s) = nvic_init_structure_adc s"
  "adc_init_struct (adc_update_dev_sequence s) =
     (adc_init_struct s)\<lparr>ADC_NbrOfConversion := length (active_channels s)\<rparr>"
  "dma_init_struct (adc_update_dev_sequence s) =
     (dma_init_struct s)\<lparr>DMA_BufferSize := length (active_channels s),
                           DMA_Memory0BaseAddr := Address_sample_buf\<rparr>"
  by (simp_all add: adc_update_dev_sequence_def Let_def platform_adc_update_sequence_parts
      set_value_ptrs_frame)

lemma adc_update_dev_sequence_ch:
  "\<exists>v. ch (adc_update_dev_sequence s) c = (ch s c)\<lparr>value_ptr := v\<rparr>"
  "c \<notin> set (active_channels s) \<Longrightarrow> ch (adc_update_dev_sequence s) c = ch s c"
proof -
  let ?s1 = "on_d (\<lambda>x. x\<lparr>ch_state := active_channels s,
                           seq_len := length (active_channels s)\<rparr>) s"
  have eq: "ch (adc_update_dev_sequence s) = ch (set_value_ptrs (active_channels s) 0 ?s1)"
    by (simp add: adc_update_dev_sequence_def Let_def platform_adc_update_sequence_parts)
  from set_value_ptrs_ch [of "active_channels s" 0 ?s1 c]
  show "\<exists>v. ch (adc_update_dev_sequence s) c = (ch s c)\<lparr>value_ptr := v\<rparr>"
    by (simp add: eq)
  show "c \<notin> set (active_channels s) \<Longrightarrow> ch (adc_update_dev_sequence s) c = ch s c"
    by (simp add: eq set_value_ptrs_other)
qed

lemma adc_update_dev_sequence_static:
  "ch_id (ch (adc_update_dev_sequence s) c) = ch_id (ch s c)"
  "reqsamples (ch (adc_update_dev_sequence s) c) = reqsamples (ch s c)"
  "freerunning (ch (adc_update_dev_sequence s) c) = freerunning (ch s c)"
  "logsmoothlen (ch (adc_update_dev_sequence s) c) = logsmoothlen (ch s c)"
  "samples_delivered (ch (adc_update_dev_sequence s) c) = samples_delivered (ch s c)"
  "op_pending (ch (adc_update_dev_sequence s) c) = op_pending (ch s c)"
  "value_fresh (ch (adc_update_dev_sequence s) c) = value_fresh (ch s c)"
  "sink (ch (adc_update_dev_sequence s) c) = sink (ch s c)"
  "smooth_ready (ch (adc_update_dev_sequence s) c) = smooth_ready (ch s c)"
  using adc_update_dev_sequence_ch(1) [of s c] by auto

lemma adc_update_dev_sequence_hw:
  "NVIC_DMA2_Stream0_IRQ (hw (adc_update_dev_sequence s)) = NVIC_DMA2_Stream0_IRQ (hw s)"
  "TIMx (hw (adc_update_dev_sequence s)) = TIMx (hw s)"
  "DMA2_Stream0 (hw (adc_update_dev_sequence s)) =
     \<lparr>dma_on = True,
      dma_conf = Some ((dma_init_struct s)\<lparr>DMA_BufferSize := length (active_channels s),
                                           DMA_Memory0BaseAddr := Address_sample_buf\<rparr>),
      dma_it_tc = True, dma_tcif = False\<rparr>"
  by (simp_all add: adc_update_dev_sequence_def Let_def platform_adc_update_sequence_hw_rest
      platform_adc_update_sequence_dma set_value_ptrs_frame)

lemma adc_update_dev_sequence_CR2:
  "CR2 (ADCx (hw (adc_update_dev_sequence s)) (seq_id (d s))) =
     (if clocked (d s) \<and> running (d s)
      then (ADC_ExternalTrigConvEdge (adc_init_struct s) AND CR2_EXTEN_RESET)
             OR ADC_ExternalTrigConvEdge_Rising
      else ADC_ExternalTrigConvEdge (adc_init_struct s))"
proof -
  let ?s2 = "set_value_ptrs (active_channels s) 0
     (on_d (\<lambda>x. x\<lparr>ch_state := active_channels s, seq_len := length (active_channels s)\<rparr>) s)"
  have "seq_id (d ?s2) = seq_id (d s)"
    by (simp add: set_value_ptrs_frame)
  with platform_adc_update_sequence_adc [of ?s2] show ?thesis
    by (simp add: adc_update_dev_sequence_def Let_def set_value_ptrs_frame)
qed

lemma adc_update_dev_sequence_wf:
  assumes "ids_ok s"
  shows "scan_wf (adc_update_dev_sequence s)" and "ids_ok (adc_update_dev_sequence s)"
proof -
  note id = adc_update_dev_sequence_static(1)
  show "ids_ok (adc_update_dev_sequence s)"
    using assms by (simp add: ids_ok_def id)
  show "scan_wf (adc_update_dev_sequence s)"
    using assms
    by (simp add: scan_wf_def adc_update_dev_sequence_d active_channels_set id ids_ok_def)
qed

section \<open>One scan of the completion handler, channel by channel\<close>

lemma scan_wf_cong:
  "ch_state (d t) = ch_state (d s) \<Longrightarrow> seq_len (d t) = seq_len (d s) \<Longrightarrow>
   (\<And>c. ch_id (ch t c) = ch_id (ch s c)) \<Longrightarrow> scan_wf t = scan_wf s"
  by (simp add: scan_wf_def)

lemma irq_scan_frame:
  "conf (irq_scan s) = conf s"
  "adc_init_struct (irq_scan s) = adc_init_struct s"
  "dma_init_struct (irq_scan s) = dma_init_struct s"
  "ch_state (d (irq_scan s)) = ch_state (d s)"
  "sample_buf (d (irq_scan s)) = sample_buf (d s)"
  "clocked (d (irq_scan s)) = clocked (d s)"
  "timer_id (d (irq_scan s)) = timer_id (d s)"
  "seq_id (d (irq_scan s)) = seq_id (d s)"
  "seq_len (d (irq_scan s)) = seq_len (d s)"
  "seq_ctr (d (irq_scan s)) = 0"
  by (simp_all add: irq_scan_def Let_def irq_loop_frame)

lemma irq_scan_static:
  "ch_id (ch (irq_scan s) c) = ch_id (ch s c)"
  "reqsamples (ch (irq_scan s) c) = reqsamples (ch s c)"
  "freerunning (ch (irq_scan s) c) = freerunning (ch s c)"
  "logsmoothlen (ch (irq_scan s) c) = logsmoothlen (ch s c)"
  "value_ptr (ch (irq_scan s) c) = value_ptr (ch s c)"
  by (simp_all add: irq_scan_def Let_def irq_loop_static)

lemma irq_scan_wf: "scan_wf (irq_scan s) = scan_wf s" "ids_ok (irq_scan s) = ids_ok s"
  by (simp_all add: scan_wf_def ids_ok_def irq_scan_frame irq_scan_static)

lemma irq_scan_ch:
  assumes "scan_wf s"
  shows "ch (irq_scan s) c =
     (if c \<in> set (ch_state (d s))
      then channel_step (BUF_ENABLE_ADC (conf s)) (sample_buf (d s)) (ch s c)
      else ch s c)"
proof -
  let ?s2 = "on_d (\<lambda>x. x\<lparr>seq_ctr := 0\<rparr>) (on_hw DMA_ClearITPendingBit s)"
  have "scan_wf ?s2"
    using assms by (simp add: scan_wf_def)
  from irq_loop_ch [OF this, of c] show ?thesis
    by (simp add: irq_scan_def Let_def)
qed

lemma irq_scan_active:
  assumes "scan_wf s"
  shows "CHANNEL_ACTIVE c (irq_scan s) \<longleftrightarrow>
     CHANNEL_ACTIVE c s \<and> \<not> (c \<in> set (ch_state (d s)) \<and> irq_stops s c)"
proof -
  let ?s2 = "on_d (\<lambda>x. x\<lparr>seq_ctr := 0\<rparr>) (on_hw DMA_ClearITPendingBit s)"
  have "scan_wf ?s2"
    using assms by (simp add: scan_wf_def)
  from irq_loop_active [OF this, of c] show ?thesis
    by (simp add: irq_scan_def Let_def channel_active_bit irq_stops_def)
qed

lemma irq_scan_dev: "loop_dev (on_hw DMA_ClearITPendingBit s) (irq_scan s)"
  using irq_loop_dev [of "on_d (\<lambda>x. x\<lparr>seq_ctr := 0\<rparr>) (on_hw DMA_ClearITPendingBit s)"]
  by (simp add: irq_scan_def Let_def loop_dev_def)


lemma channel_step_queue:
  assumes "\<not> (0 < logsmoothlen x \<and> \<not> smooth_ready x)"
  shows "value_fresh (channel_step b v x) = (\<not> (b \<and> 1 < reqsamples x))"
    and "sink (channel_step b v x) =
           (if b \<and> 1 < reqsamples x then snd (rbuff_push (sink x) (v ! value_ptr x))
            else sink x)"
  using assms by (auto simp add: channel_step_def Let_def)

lemma adc_setup_channel_parts:
  "conf (adc_setup_channel c k depth s) = conf s"
  "hw (adc_setup_channel c k depth s) = hw s"
  "adc_init_struct (adc_setup_channel c k depth s) = adc_init_struct s"
  "dma_init_struct (adc_setup_channel c k depth s) = dma_init_struct s"
  "nvic_init_structure_adc (adc_setup_channel c k depth s) = nvic_init_structure_adc s"
  "d (adc_setup_channel c k depth s) = (d s)\<lparr>ch_active := ch_active (d s) OR 2 ^ c\<rparr>"
  "ch (adc_setup_channel c k depth s) =
     (ch s)(c := (ch s c)\<lparr>reqsamples := k, freerunning := (k = 0), logsmoothlen := depth,
                            smooth_ready := False, smoothidx := 0, smoothsum := 0,
                            samples_delivered := 0\<rparr>)"
  by (simp_all add: adc_setup_channel_def ACTIVATE_CHANNEL_def)

lemma start_idle_parts:
  assumes "\<not> running (d s)"
  shows "conf (start c k depth s) = conf s"
    and "d (start c k depth s) =
      (d s)\<lparr>ch_active := ch_active (d s) OR 2 ^ c,
            ch_state := active_channels (adc_setup_channel c k depth s),
            seq_len := length (active_channels (adc_setup_channel c k depth s)),
            seq_ctr := 0, running := True\<rparr>"
    and "NVIC_DMA2_Stream0_IRQ (hw (start c k depth s))"
    and "dma_it_tc (DMA2_Stream0 (hw (start c k depth s)))"
    and "\<exists>v. ch (start c k depth s) c' = (ch (adc_setup_channel c k depth s) c')\<lparr>value_ptr := v\<rparr>"
proof -
  let ?s0 = "adc_setup_channel c k depth s"
  have nr: "\<not> running (d ?s0)"
    using assms by (simp add: adc_setup_channel_parts)
  show "conf (start c k depth s) = conf s"
    using nr
    by (simp add: start_def platform_adc_start_sequence_def Let_def
        adc_update_dev_sequence_frame adc_setup_channel_parts)
  show "d (start c k depth s) =
      (d s)\<lparr>ch_active := ch_active (d s) OR 2 ^ c,
            ch_state := active_channels (adc_setup_channel c k depth s),
            seq_len := length (active_channels (adc_setup_channel c k depth s)),
            seq_ctr := 0, running := True\<rparr>"
    using nr
    by (simp add: start_def platform_adc_start_sequence_def Let_def
        adc_update_dev_sequence_d adc_setup_channel_parts)
  show "NVIC_DMA2_Stream0_IRQ (hw (start c k depth s))"
    using nr
    by (simp add: start_def platform_adc_start_sequence_def Let_def hw_defs)
  show "dma_it_tc (DMA2_Stream0 (hw (start c k depth s)))"
    using nr
    by (simp add: start_def platform_adc_start_sequence_def Let_def hw_defs
        adc_update_dev_sequence_hw)
  show "\<exists>v. ch (start c k depth s) c' = (ch (adc_setup_channel c k depth s) c')\<lparr>value_ptr := v\<rparr>"
    using nr adc_update_dev_sequence_ch(1) [of ?s0 c']
    by (simp add: start_def platform_adc_start_sequence_def Let_def)
qed

lemma start_idle_wf:
  assumes "\<not> running (d s)" and "ids_ok s"
  shows "scan_wf (start c k depth s)" and "ids_ok (start c k depth s)"
proof -
  let ?s0 = "adc_setup_channel c k depth s"
  have nr: "\<not> running (d ?s0)"
    using assms by (simp add: adc_setup_channel_parts)
  have ok: "ids_ok ?s0"
    using assms(2) by (simp add: ids_ok_def adc_setup_channel_parts)
  have eq: "ch_state (d (start c k depth s)) = ch_state (d (adc_update_dev_sequence ?s0))"
    "seq_len (d (start c k depth s)) = seq_len (d (adc_update_dev_sequence ?s0))"
    "ch (start c k depth s) = ch (adc_update_dev_sequence ?s0)"
    using nr by (simp_all add: start_def platform_adc_start_sequence_def Let_def)
  show "scan_wf (start c k depth s)"
    using adc_update_dev_sequence_wf(1) [OF ok] by (simp add: scan_wf_def eq)
  show "ids_ok (start c k depth s)"
    using adc_update_dev_sequence_wf(2) [OF ok] by (simp add: ids_ok_def eq)
qed

lemma demo_ids_ok: "ids_ok demo_init"
  by (simp add: ids_ok_def demo_init_fields)

lemma demo_not_running: "\<not> running (d demo_init)"
  by (simp add: demo_init_d boot_def)

lemma demo_start_scan: "ch_state (d (start 2 k depth demo_init)) = [2]"
  by (simp add: start_idle_parts(2) [OF demo_not_running] active_channels_def
      CHANNEL_ACTIVE_def adc_setup_channel_parts demo_init_ch_active NUM_ADC_def
      upt_rec [of _ "numeral _"] upt_rec [of _ "Suc _"])

lemma fold_init_conf_sink:
  "sink (ch (fold adc_init_ch_state cs s) c) =
     (if c \<in> set cs then rbuff_new 0 (ADC_BUF_SIZE (conf s)) else sink (ch s c))"
  by (induction cs arbitrary: s)
    (auto simp add: adc_init_ch_state_def INACTIVATE_CHANNEL_def fold_init_other)

lemma demo_init_sink: "sink (ch demo_init 2) = rbuff_new 0 8"
proof -
  obtain s' where s': "adcs_init (boot demo_conf) = Inr s'"
    using adcs_init_ok by blast
  from adcs_init_result [OF s'] show ?thesis
    by (simp add: demo_init_def s' fold_init_conf_sink NUM_ADC_def)
      (simp add: boot_def demo_conf_def)
qed

lemma demo_start_ch:
  "reqsamples (ch (start 2 k depth demo_init) 2) = k"
  "logsmoothlen (ch (start 2 k depth demo_init) 2) = depth"
  "smooth_ready (ch (start 2 k depth demo_init) 2) = False"
  "freerunning (ch (start 2 k depth demo_init) 2) = (k = 0)"
  "samples_delivered (ch (start 2 k depth demo_init) 2) = 0"
  "sink (ch (start 2 k depth demo_init) 2) = rbuff_new 0 8"
  using start_idle_parts(5) [OF demo_not_running, of 2 k depth 2]
  by (auto simp add: adc_setup_channel_parts demo_init_sink)

text \<open>
  Claim C2, as amended. In the completion handler, for every channel of the scan list
  whose smoothing branch is not taken (smoothing depth 0, or the filter already warmed
  up): if the firmware is built with ADC buffering and the channel's requested sample
  count is greater than 1, the captured sample the channel's value pointer designates is
  pushed into the channel's ring buffer and \<open>value_fresh\<close> is cleared; otherwise
  the ring buffer is left as it was and \<open>value_fresh\<close> stays set. The test of the
  source is \<open>reqsamples > 1\<close>: a free-running channel started with a count of 0 is
  not queued.
\<close>

theorem irq_scan_queue:
  assumes "scan_wf s" and "c \<in> set (ch_state (d s))" and "\<not> irq_smooths s c"
  shows
    "(BUF_ENABLE_ADC (conf s) \<and> 1 < reqsamples (ch s c) \<longrightarrow>
        sink (ch (irq_scan s) c) =
          snd (rbuff_push (sink (ch s c)) (sample_buf (d s) ! value_ptr (ch s c))) \<and>
        \<not> value_fresh (ch (irq_scan s) c)) \<and>
     (\<not> (BUF_ENABLE_ADC (conf s) \<and> 1 < reqsamples (ch s c)) \<longrightarrow>
        sink (ch (irq_scan s) c) = sink (ch s c) \<and> value_fresh (ch (irq_scan s) c))"
  using assms(2,3)
  by (simp add: irq_scan_ch [OF assms(1)] irq_smooths_def channel_step_queue)

theorem irq_scan_queue_witness:
  "scan_wf (start 2 5 0 demo_init) \<and> 2 \<in> set (ch_state (d (start 2 5 0 demo_init))) \<and>
   \<not> irq_smooths (start 2 5 0 demo_init) 2 \<and>
   BUF_ENABLE_ADC (conf (start 2 5 0 demo_init)) \<and>
   1 < reqsamples (ch (start 2 5 0 demo_init) 2) \<and>
   \<not> value_fresh (ch (irq_scan (start 2 5 0 demo_init)) 2) \<and>
   sink (ch (irq_scan (start 2 5 0 demo_init)) 2) =
     snd (rbuff_push (rbuff_new 0 8) (sample_buf (d (start 2 5 0 demo_init)) !
       value_ptr (ch (start 2 5 0 demo_init) 2))) \<and>
   scan_wf (start 2 1 0 demo_init) \<and> 2 \<in> set (ch_state (d (start 2 1 0 demo_init))) \<and>
   \<not> irq_smooths (start 2 1 0 demo_init) 2 \<and>
   \<not> 1 < reqsamples (ch (start 2 1 0 demo_init) 2) \<and>
   value_fresh (ch (irq_scan (start 2 1 0 demo_init)) 2) \<and>
   sink (ch (irq_scan (start 2 1 0 demo_init)) 2) = rbuff_new 0 8"
  using irq_scan_queue [of "start 2 5 0 demo_init" 2] irq_scan_queue [of "start 2 1 0 demo_init" 2]
    start_idle_wf(1) [OF demo_not_running demo_ids_ok, of 2 5 0]
    start_idle_wf(1) [OF demo_not_running demo_ids_ok, of 2 1 0]
  by (simp add: demo_start_scan demo_start_ch irq_smooths_def
      start_idle_parts(1) [OF demo_not_running] demo_init_fields demo_conf_def)

text \<open>
  A channel started free-running, with a requested sample count of 0 (which is not 1),
  on a build with ADC buffering: one scan leaves its ring buffer untouched and
  \<open>value_fresh\<close> set.
\<close>

theorem irq_scan_free_running_not_queued:
  "BUF_ENABLE_ADC (conf (start 2 0 0 demo_init)) \<and>
   reqsamples (ch (start 2 0 0 demo_init) 2) \<noteq> 1 \<and>
   reqsamples (ch (start 2 0 0 demo_init) 2) = 0 \<and>
   2 \<in> set (ch_state (d (start 2 0 0 demo_init))) \<and>
   \<not> irq_smooths (start 2 0 0 demo_init) 2 \<and>
   value_fresh (ch (irq_scan (start 2 0 0 demo_init)) 2) \<and>
   sink (ch (irq_scan (start 2 0 0 demo_init)) 2) = sink (ch (start 2 0 0 demo_init) 2) \<and>
   sink (ch (irq_scan (start 2 0 0 demo_init)) 2) \<noteq>
     snd (rbuff_push (sink (ch (start 2 0 0 demo_init) 2))
       (sample_buf (d (start 2 0 0 demo_init)) ! value_ptr (ch (start 2 0 0 demo_init) 2)))"
proof -
  let ?t = "start 2 0 0 demo_init"
  have wf: "scan_wf ?t"
    by (rule start_idle_wf(1) [OF demo_not_running demo_ids_ok])
  have sm: "\<not> irq_smooths ?t 2"
    by (simp add: irq_smooths_def demo_start_ch)
  have st: "ch (irq_scan ?t) 2 =
      channel_step (BUF_ENABLE_ADC (conf ?t)) (sample_buf (d ?t)) (ch ?t 2)"
    by (simp add: irq_scan_ch [OF wf] demo_start_scan)
  have q: "\<not> (0 < logsmoothlen (ch ?t 2) \<and> \<not> smooth_ready (ch ?t 2))"
    by (simp add: demo_start_ch)
  show ?thesis
    using sm
    by (simp add: st channel_step_queue [OF q] demo_start_scan demo_start_ch
        start_idle_parts(1) [OF demo_not_running] demo_init_fields demo_conf_def
        rbuff_push_def rbuff_is_full_def rbuff_new_def)
qed

section \<open>ADC subsystem: the software-triggered mode\<close>

lemma swstart_nonzero: "ADC_CR2_SWSTART \<noteq> 0"
  by (simp add: ADC_CR2_SWSTART_def)

lemma set_clock_zero_sw_mode:
  "\<exists>t. platform_adc_set_clock n 0 s = Inr (0, t) \<and> sw_mode t \<and>
       running (d t) = running (d s) \<and> ch_active (d t) = ch_active (d s)"
  by (simp add: set_clock_zero sw_mode_def trigger_enabled_def hw_defs)

lemma sw_mode_cong:
  "clocked (d t) = clocked (d s) \<Longrightarrow> seq_id (d t) = seq_id (d s) \<Longrightarrow>
   ADC_ExternalTrigConvEdge (adc_init_struct t) = ADC_ExternalTrigConvEdge (adc_init_struct s) \<Longrightarrow>
   CR2 (ADCx (hw t) (seq_id (d s))) AND NOT CR2_EXTEN_RESET =
     CR2 (ADCx (hw s) (seq_id (d s))) AND NOT CR2_EXTEN_RESET \<Longrightarrow>
   sw_mode t = sw_mode s"
  by (simp add: sw_mode_def trigger_enabled_def)

lemma irq_scan_sw_mode:
  assumes "sw_mode s"
  shows "sw_mode (irq_scan s)"
  using assms irq_scan_dev [of s]
  by (auto simp add: sw_mode_def irq_scan_frame loop_dev_def trigger_enabled_def hw_defs
      sequencer_off_def)

lemma adc_update_dev_sequence_sw_mode:
  assumes "sw_mode s"
  shows "sw_mode (adc_update_dev_sequence s)"
    and "\<not> software_started (seq_id (d s)) (hw (adc_update_dev_sequence s))"
  using assms adc_update_dev_sequence_CR2 [of s]
  by (simp_all add: sw_mode_def trigger_enabled_def software_started_def
      adc_update_dev_sequence_d adc_update_dev_sequence_frame
      ADC_ExternalTrigConvEdge_None_def)

lemma software_start_sw_mode:
  assumes "sw_mode s"
  shows "sw_mode (on_hw (ADC_SoftwareStartConvCmd (seq_id (d s)) ENABLE) s)"
    and "software_started (seq_id (d s))
           (hw (on_hw (ADC_SoftwareStartConvCmd (seq_id (d s)) ENABLE) s))"
  using assms
  by (simp_all add: sw_mode_def trigger_enabled_def software_started_def hw_defs
      swstart_nonzero)

lemma irq_handler_sw_mode:
  assumes "sw_mode s"
  shows "sw_mode (DMA2_Stream0_IRQHandler s)"
    and "seq_id (d (DMA2_Stream0_IRQHandler s)) = seq_id (d s)"
    and "running (d (DMA2_Stream0_IRQHandler s)) \<Longrightarrow>
         software_started (seq_id (d s)) (hw (DMA2_Stream0_IRQHandler s))"
proof -
  let ?s4 = "irq_scan s"
  let ?s5 = "if running (d ?s4) then adc_update_dev_sequence ?s4 else ?s4"
  have m4: "sw_mode ?s4"
    by (rule irq_scan_sw_mode [OF assms])
  have m5: "sw_mode ?s5"
    using m4 by (simp add: adc_update_dev_sequence_sw_mode)
  have id5: "seq_id (d ?s5) = seq_id (d s)"
    by (simp add: adc_update_dev_sequence_d irq_scan_frame)
  have h: "DMA2_Stream0_IRQHandler s =
      (if \<not> clocked (d ?s5) \<and> running (d ?s5)
       then on_hw (ADC_SoftwareStartConvCmd (seq_id (d ?s5)) ENABLE) ?s5 else ?s5)"
    by (simp add: DMA2_Stream0_IRQHandler_def Let_def)
  show "sw_mode (DMA2_Stream0_IRQHandler s)"
    unfolding h using m5 software_start_sw_mode(1) [OF m5] by simp
  show "seq_id (d (DMA2_Stream0_IRQHandler s)) = seq_id (d s)"
    unfolding h using id5 by simp
  assume r: "running (d (DMA2_Stream0_IRQHandler s))"
  have r5: "running (d ?s5)"
    using r unfolding h by (simp split: if_splits)
  have c5: "\<not> clocked (d ?s5)"
    using m5 by (simp add: sw_mode_def)
  from r5 c5 have "DMA2_Stream0_IRQHandler s =
      on_hw (ADC_SoftwareStartConvCmd (seq_id (d ?s5)) ENABLE) ?s5"
    unfolding h by simp
  with software_start_sw_mode(2) [OF m5] id5
  show "software_started (seq_id (d s)) (hw (DMA2_Stream0_IRQHandler s))"
    by simp
qed

lemma start_sequence_sw_mode:
  assumes "sw_mode s" and "\<not> running (d s)"
  shows "sw_mode (snd (platform_adc_start_sequence s))"
    and "running (d (snd (platform_adc_start_sequence s)))"
    and "software_started (seq_id (d s)) (hw (snd (platform_adc_start_sequence s)))"
    and "NVIC_DMA2_Stream0_IRQ (hw (snd (platform_adc_start_sequence s)))"
  using assms adc_update_dev_sequence_sw_mode(1) [OF assms(1)]
  by (simp_all add: platform_adc_start_sequence_def Let_def sw_mode_def trigger_enabled_def
      software_started_def adc_update_dev_sequence_d hw_defs swstart_nonzero)

lemma irq_scan_keeps_running:
  assumes "CHANNEL_ACTIVE c (irq_scan s)"
  shows "running (d (irq_scan s)) = running (d s)"
    and "hw (irq_scan s) = DMA_ClearITPendingBit (hw s)"
    and "nvic_init_structure_adc (irq_scan s) = nvic_init_structure_adc s"
proof -
  have nz: "ch_active (d (irq_scan s)) \<noteq> 0"
    using assms by (auto simp add: CHANNEL_ACTIVE_def)
  with irq_scan_dev [of s] show "running (d (irq_scan s)) = running (d s)"
    and "hw (irq_scan s) = DMA_ClearITPendingBit (hw s)"
    and "nvic_init_structure_adc (irq_scan s) = nvic_init_structure_adc s"
    by (simp_all add: loop_dev_def on_hw_def)
qed

lemma irq_handler_running:
  "running (d (DMA2_Stream0_IRQHandler s)) = running (d (irq_scan s))"
  by (simp add: DMA2_Stream0_IRQHandler_def Let_def adc_update_dev_sequence_d)

lemma demo_sw_mode: "sw_mode demo_init"
  by (simp add: sw_mode_def demo_init_d demo_init_fields demo_init_hw trigger_enabled_def)
    (simp add: boot_def)

lemma demo_start_sw_mode: "sw_mode (start 2 k depth demo_init)"
proof -
  have "sw_mode (adc_setup_channel 2 k depth demo_init)"
    using demo_sw_mode by (simp add: sw_mode_def adc_setup_channel_parts)
  moreover have "\<not> running (d (adc_setup_channel 2 k depth demo_init))"
    using demo_not_running by (simp add: adc_setup_channel_parts)
  ultimately show ?thesis
    unfolding start_def by (rule start_sequence_sw_mode(1))
qed

lemma demo_start_active: "CHANNEL_ACTIVE 2 (start 2 k depth demo_init)"
  by (simp add: channel_active_bit start_idle_parts(2) [OF demo_not_running]
      demo_init_ch_active bit_simps)

lemma demo_start_running:
  assumes "1 < k"
  shows "running (d (DMA2_Stream0_IRQHandler (start 2 k 0 demo_init)))"
proof -
  let ?t = "start 2 k 0 demo_init"
  have wf: "scan_wf ?t"
    by (rule start_idle_wf(1) [OF demo_not_running demo_ids_ok])
  have "\<not> irq_stops ?t 2"
    using assms by (auto simp add: irq_stops_def demo_start_ch dest: leD)
  then have "CHANNEL_ACTIVE 2 (irq_scan ?t)"
    by (simp add: irq_scan_active [OF wf] demo_start_active)
  from irq_scan_keeps_running(1) [OF this] show ?thesis
    by (simp add: irq_handler_running start_idle_parts(2) [OF demo_not_running])
qed

text \<open>
  Claim C4. For a requested frequency of 0, \<^verbatim>\<open>platform_adc_set_clock\<close> answers 0 and
  leaves the device in the software-triggered mode: not clocked, the trigger edge "none"
  in the structure and in the converter, so that the timer starts no conversion. The
  mode is kept by the completion handler and by \<^verbatim>\<open>platform_adc_start_sequence\<close>, and
  each of them, when it leaves the device running, has issued the software start of the
  next scan: the handler after every completed scan, the start routine when it takes the
  device from idle to running.
\<close>

theorem platform_adc_set_clock_zero_software_trigger:
  "(\<exists>t. platform_adc_set_clock n 0 s = Inr (0, t) \<and> sw_mode t) \<and>
   (sw_mode s \<longrightarrow>
      sw_mode (DMA2_Stream0_IRQHandler s) \<and>
      (running (d (DMA2_Stream0_IRQHandler s)) \<longrightarrow>
         software_started (seq_id (d s)) (hw (DMA2_Stream0_IRQHandler s))) \<and>
      (\<not> running (d s) \<longrightarrow>
         sw_mode (snd (platform_adc_start_sequence s)) \<and>
         running (d (snd (platform_adc_start_sequence s))) \<and>
         software_started (seq_id (d s)) (hw (snd (platform_adc_start_sequence s)))))"
proof -
  have "\<exists>t. platform_adc_set_clock n 0 s = Inr (0, t) \<and> sw_mode t"
    using set_clock_zero_sw_mode [of n s] by blast
  moreover have "sw_mode (DMA2_Stream0_IRQHandler s)" if "sw_mode s"
    using that by (rule irq_handler_sw_mode(1))
  moreover have "software_started (seq_id (d s)) (hw (DMA2_Stream0_IRQHandler s))"
    if "sw_mode s" and "running (d (DMA2_Stream0_IRQHandler s))"
    using that by (rule irq_handler_sw_mode(3))
  moreover have "sw_mode (snd (platform_adc_start_sequence s)) \<and>
         running (d (snd (platform_adc_start_sequence s))) \<and>
         software_started (seq_id (d s)) (hw (snd (platform_adc_start_sequence s)))"
    if "sw_mode s" and "\<not> running (d s)"
    using start_sequence_sw_mode(1-3) [OF that] by simp
  ultimately show ?thesis
    by blast
qed

theorem platform_adc_set_clock_zero_software_trigger_witness:
  "(\<exists>t. platform_adc_set_clock 0 0 demo_init = Inr (0, t) \<and> sw_mode t) \<and>
   sw_mode demo_init \<and> \<not> running (d demo_init) \<and>
   sw_mode (snd (platform_adc_start_sequence demo_init)) \<and>
   running (d (snd (platform_adc_start_sequence demo_init))) \<and>
   software_started 0 (hw (snd (platform_adc_start_sequence demo_init))) \<and>
   sw_mode (start 2 5 0 demo_init) \<and>
   sw_mode (DMA2_Stream0_IRQHandler (start 2 5 0 demo_init)) \<and>
   running (d (DMA2_Stream0_IRQHandler (start 2 5 0 demo_init))) \<and>
   software_started 0 (hw (DMA2_Stream0_IRQHandler (start 2 5 0 demo_init)))"
  using platform_adc_set_clock_zero_software_trigger [of 0 demo_init]
    platform_adc_set_clock_zero_software_trigger [of 0 "start 2 5 0 demo_init"]
    demo_sw_mode demo_not_running demo_start_sw_mode [of 5 0] demo_start_running [of 5]
  by (simp add: demo_init_d start_idle_parts(2) [OF demo_not_running]) (simp add: boot_def)

section \<open>ADC subsystem: a channel from its start to its last sample\<close>

lemma irq_handler_parts:
  "conf (DMA2_Stream0_IRQHandler s) = conf s"
  "d (DMA2_Stream0_IRQHandler s) =
     (if running (d (irq_scan s)) then d (adc_update_dev_sequence (irq_scan s))
      else d (irq_scan s))"
  "ch (DMA2_Stream0_IRQHandler s) =
     (if running (d (irq_scan s)) then ch (adc_update_dev_sequence (irq_scan s))
      else ch (irq_scan s))"
  "NVIC_DMA2_Stream0_IRQ (hw (DMA2_Stream0_IRQHandler s)) =
     NVIC_DMA2_Stream0_IRQ (hw (irq_scan s))"
  "DMA2_Stream0 (hw (DMA2_Stream0_IRQHandler s)) =
     (if running (d (irq_scan s)) then DMA2_Stream0 (hw (adc_update_dev_sequence (irq_scan s)))
      else DMA2_Stream0 (hw (irq_scan s)))"
  by (simp_all add: DMA2_Stream0_IRQHandler_def Let_def adc_update_dev_sequence_d
      adc_update_dev_sequence_frame irq_scan_frame adc_update_dev_sequence_hw hw_defs)

lemma adc_update_dev_sequence_active:
  "CHANNEL_ACTIVE c (adc_update_dev_sequence s) = CHANNEL_ACTIVE c s"
  by (simp add: CHANNEL_ACTIVE_def adc_update_dev_sequence_d)


lemma irq_handler_preds:
  "CHANNEL_ACTIVE c (DMA2_Stream0_IRQHandler s) = CHANNEL_ACTIVE c (irq_scan s)"
  "ids_ok (DMA2_Stream0_IRQHandler s) = ids_ok (irq_scan s)"
  "scan_wf (DMA2_Stream0_IRQHandler s) =
     (if running (d (irq_scan s)) then scan_wf (adc_update_dev_sequence (irq_scan s))
      else scan_wf (irq_scan s))"
  by (simp_all add: CHANNEL_ACTIVE_def ids_ok_def scan_wf_def irq_handler_parts
      adc_update_dev_sequence_d adc_update_dev_sequence_static)



lemma scan_complete_cases:
  "scan_complete v s =
     (let s2 = on_hw (on_dma (\<lambda>m. m\<lparr>dma_tcif := True\<rparr>)) (on_d (\<lambda>x. x\<lparr>sample_buf := v\<rparr>) s)
      in if NVIC_DMA2_Stream0_IRQ (hw s) \<and> dma_it_tc (DMA2_Stream0 (hw s))
         then DMA2_Stream0_IRQHandler s2 else s2)"
  by (simp add: scan_complete_def Let_def on_dma_def)









lemma irq_handler_enters:
  assumes "scan_wf s" and "ids_ok s" and "c < NUM_ADC" and "c \<notin> set (ch_state (d s))"
    and "CHANNEL_ACTIVE c s" and "running (d s)" and "NVIC_DMA2_Stream0_IRQ (hw s)"
    and "\<not> freerunning (ch s c)"
  shows "sampling c (reqsamples (ch s c)) (DMA2_Stream0_IRQHandler s)"
    and "samples_delivered (ch (DMA2_Stream0_IRQHandler s) c) = samples_delivered (ch s c)"
proof -
  let ?s4 = "irq_scan s"
  have a4: "CHANNEL_ACTIVE c ?s4"
    using assms(4,5) by (simp add: irq_scan_active [OF assms(1)])
  have r4: "running (d ?s4)"
    using irq_scan_keeps_running(1) [OF a4] assms(6) by simp
  have n4: "NVIC_DMA2_Stream0_IRQ (hw ?s4)"
    using assms(7) by (simp add: irq_scan_keeps_running(2) [OF a4] hw_defs)
  have ids4: "ids_ok ?s4"
    using assms(2) by (simp add: irq_scan_wf)
  have ch4: "ch ?s4 c = ch s c"
    using assms(4) by (simp add: irq_scan_ch [OF assms(1)])
  have l5: "c \<in> set (active_channels ?s4)"
    using assms(3) a4 by (simp add: active_channels_set)
  show "samples_delivered (ch (DMA2_Stream0_IRQHandler s) c) = samples_delivered (ch s c)"
    using r4 by (simp add: irq_handler_parts adc_update_dev_sequence_static ch4)
  show "sampling c (reqsamples (ch s c)) (DMA2_Stream0_IRQHandler s)"
    unfolding sampling_def
    using r4 n4 assms(3,8) l5 a4 ids4 adc_update_dev_sequence_wf(1) [OF ids4]
    by (simp add: irq_handler_parts irq_handler_preds adc_update_dev_sequence_static ch4
        adc_update_dev_sequence_hw adc_update_dev_sequence_d)
qed

lemma start_running_enters:
  assumes "running (d s)" and "scan_wf s" and "ids_ok s" and "c < NUM_ADC"
    and "c \<notin> set (ch_state (d s))" and "NVIC_DMA2_Stream0_IRQ (hw s)"
    and "dma_it_tc (DMA2_Stream0 (hw s))" and "k \<noteq> 0"
  shows "start c k depth s = adc_setup_channel c k depth s"
    and "c \<notin> set (ch_state (d (start c k depth s)))"
    and "sampling c k (scan_complete v (start c k depth s))"
    and "samples_delivered (ch (scan_complete v (start c k depth s)) c) = 0"
proof -
  let ?s0 = "adc_setup_channel c k depth s"
  let ?s2 = "on_hw (on_dma (\<lambda>m. m\<lparr>dma_tcif := True\<rparr>)) (on_d (\<lambda>x. x\<lparr>sample_buf := v\<rparr>) ?s0)"
  show e: "start c k depth s = ?s0"
    using assms(1)
    by (simp add: start_def platform_adc_start_sequence_def adc_setup_channel_parts)
  show "c \<notin> set (ch_state (d (start c k depth s)))"
    using assms(5) by (simp add: e adc_setup_channel_parts)
  have h: "scan_complete v ?s0 = DMA2_Stream0_IRQHandler ?s2"
    using assms(6,7) by (simp add: scan_complete_cases Let_def adc_setup_channel_parts)
  have wf: "scan_wf ?s2"
    using assms(2) by (simp add: scan_wf_def adc_setup_channel_parts on_dma_def)
  have ids: "ids_ok ?s2"
    using assms(3) by (simp add: ids_ok_def adc_setup_channel_parts on_dma_def)
  have l: "c \<notin> set (ch_state (d ?s2))"
    using assms(5) by (simp add: adc_setup_channel_parts)
  have a: "CHANNEL_ACTIVE c ?s2"
    using assms(4) by (simp add: channel_active_bit adc_setup_channel_parts bit_simps NUM_ADC_def)
  have r: "running (d ?s2)"
    using assms(1) by (simp add: adc_setup_channel_parts)
  have n: "NVIC_DMA2_Stream0_IRQ (hw ?s2)"
    using assms(6) by (simp add: adc_setup_channel_parts on_dma_def)
  have f: "\<not> freerunning (ch ?s2 c)"
    using assms(8) by (simp add: adc_setup_channel_parts)
  from irq_handler_enters [OF wf ids assms(4) l a r n f]
  show "sampling c k (scan_complete v (start c k depth s))"
    and "samples_delivered (ch (scan_complete v (start c k depth s)) c) = 0"
    by (simp_all add: e h adc_setup_channel_parts)
qed



end
